theory Spec2Isabelle
  imports Complex_Main "HOL-Library.AList" "HOL-Library.Char_ord" "HOL-Library.List_Lexorder"
begin

section \<open>Values held in memory and on disk\<close>

text \<open>
  The documents of the tracker are Python values as \<^verbatim>\<open>json.loads\<close> builds them:
  \<^verbatim>\<open>None\<close>, booleans, unbounded integers, floats, strings, lists, and dictionaries
  with string keys. A dictionary is an association list: Python dictionaries keep the
  insertion order, an assignment to a key that is there keeps its place, and an assignment
  to a new key appends it, which is what \<^const>\<open>AList.update\<close> does.

  A float is modelled by its value: a finite double is the real number it denotes (the
  two zeros are one value), and the three special values \<^verbatim>\<open>inf\<close>, \<^verbatim>\<open>-inf\<close> and
  \<^verbatim>\<open>nan\<close>, which \<^verbatim>\<open>json.loads\<close> accepts, are constructors of their own.
  Strings are lists of characters with code points below 256.
\<close>

datatype pyfloat = Finite real | PosInf | NegInf | NaN

datatype json =
    JNull
  | JBool bool
  | JInt int
  | JFloat pyfloat
  | JStr string
  | JList "json list"
  | JDict "(string \<times> json) list"

type_synonym dict = "(string \<times> json) list"

text \<open>\<^verbatim>\<open>d.get(k)\<close> is \<^term>\<open>map_of d k\<close>, and \<^verbatim>\<open>d[k] = v\<close> is \<^term>\<open>AList.update k v d\<close>.\<close>

definition setdefault :: "string \<Rightarrow> json \<Rightarrow> dict \<Rightarrow> dict" where
  \<comment> \<open>\<^verbatim>\<open>d.setdefault(k, v)\<close>: stores \<open>v\<close> only when \<open>k\<close> is absent\<close>
  "setdefault k v d = (case map_of d k of None \<Rightarrow> AList.update k v d | Some _ \<Rightarrow> d)"

definition eq_int :: "json \<Rightarrow> int \<Rightarrow> bool" where
  \<comment> \<open>Python's \<^verbatim>\<open>x == n\<close> for an integer \<open>n\<close>: booleans are the integers 0 and 1, and a
      float equals an integer of the same value\<close>
  "eq_int x n = (case x of
       JInt i \<Rightarrow> i = n
     | JBool b \<Rightarrow> (if b then 1 else 0) = n
     | JFloat (Finite r) \<Rightarrow> r = real_of_int n
     | _ \<Rightarrow> False)"

definition truthy :: "json \<Rightarrow> bool" where
  \<comment> \<open>Python's truth value of an object, used by \<^verbatim>\<open>not x\<close> and \<^verbatim>\<open>bool(x)\<close>\<close>
  "truthy x = (case x of
       JNull \<Rightarrow> False
     | JBool b \<Rightarrow> b
     | JInt i \<Rightarrow> i \<noteq> 0
     | JFloat (Finite r) \<Rightarrow> r \<noteq> 0
     | JFloat _ \<Rightarrow> True
     | JStr s \<Rightarrow> s \<noteq> []
     | JList xs \<Rightarrow> xs \<noteq> []
     | JDict kvs \<Rightarrow> kvs \<noteq> [])"

section \<open>Text and numbers\<close>

text \<open>
  The string functions of Python that the tracker calls. Among the code points below 256,
  \<^verbatim>\<open>str.strip\<close> removes the characters for which \<^verbatim>\<open>str.isspace\<close> holds; \<^verbatim>\<open>int\<close>
  skips fewer around its digits: the four separators \<^verbatim>\<open>0x1C\<close> to \<^verbatim>\<open>0x1F\<close> are white
  space for \<^verbatim>\<open>strip\<close> and an error for \<^verbatim>\<open>int\<close>.
\<close>

definition is_space :: "char \<Rightarrow> bool" where
  "is_space c = (c \<in> set [CHR 0x09, CHR 0x0A, CHR 0x0B, CHR 0x0C, CHR 0x0D,
      CHR 0x1C, CHR 0x1D, CHR 0x1E, CHR 0x1F, CHR 0x20, CHR 0x85, CHR 0xA0])"

definition strip :: "string \<Rightarrow> string" where
  "strip s = rev (dropWhile is_space (rev (dropWhile is_space s)))"

definition is_int_space :: "char \<Rightarrow> bool" where
  "is_int_space c = (c \<in> set [CHR 0x09, CHR 0x0A, CHR 0x0B, CHR 0x0C, CHR 0x0D,
      CHR 0x20, CHR 0x85, CHR 0xA0])"

definition int_strip :: "string \<Rightarrow> string" where
  \<comment> \<open>the white space that \<^verbatim>\<open>int\<close> skips before and after the number\<close>
  "int_strip s = rev (dropWhile is_int_space (rev (dropWhile is_int_space s)))"

definition remove_char :: "char \<Rightarrow> string \<Rightarrow> string" where
  \<comment> \<open>\<^verbatim>\<open>s.replace(c, "")\<close>\<close>
  "remove_char c s = filter (\<lambda>x. x \<noteq> c) s"

definition replace_char :: "char \<Rightarrow> char \<Rightarrow> string \<Rightarrow> string" where
  \<comment> \<open>\<^verbatim>\<open>s.replace(a, b)\<close> for two single characters\<close>
  "replace_char a b s = map (\<lambda>x. if x = a then b else x) s"

definition normalize_int :: "string \<Rightarrow> string" where
  "normalize_int s = strip (remove_char CHR '','' s)"

definition is_digit :: "char \<Rightarrow> bool" where
  "is_digit c = (c \<in> set ''0123456789'')"

definition digit_val :: "char \<Rightarrow> nat" where
  "digit_val c = of_char c - 48"

fun digits_ok :: "string \<Rightarrow> bool" where
  \<comment> \<open>the digits of an integer literal: at least one, single underscores only between two\<close>
  "digits_ok [] = False"
| "digits_ok [c] = is_digit c"
| "digits_ok (c # d # cs) =
     (is_digit c \<and> (if d = CHR ''_'' then digits_ok cs else digits_ok (d # cs)))"

definition digits_value :: "string \<Rightarrow> nat" where
  "digits_value s = foldl (\<lambda>a c. if c = CHR ''_'' then a else 10 * a + digit_val c) 0 s"

definition int_of_string :: "string \<Rightarrow> int option" where
  \<comment> \<open>\<^verbatim>\<open>int(s)\<close> for a string: \<open>None\<close> is \<^verbatim>\<open>ValueError\<close>. The interpreter's optional
      limit on the number of digits is not part of the model.\<close>
  "int_of_string s = (case int_strip s of
       [] \<Rightarrow> None
     | c # cs \<Rightarrow>
         (let body = (if c = CHR ''-'' \<or> c = CHR ''+'' then cs else c # cs)
          in if digits_ok body
             then Some (if c = CHR ''-'' then - int (digits_value body) else int (digits_value body))
             else None))"

definition digit_char :: "nat \<Rightarrow> char" where
  "digit_char d = ''0123456789'' ! d"

fun digits10 :: "nat \<Rightarrow> string" where
  "digits10 n = (if n < 10 then [digit_char n] else digits10 (n div 10) @ [digit_char (n mod 10)])"

declare digits10.simps [simp del]

definition str_int :: "int \<Rightarrow> string" where
  \<comment> \<open>\<^verbatim>\<open>str(i)\<close> for an integer\<close>
  "str_int i = (if i < 0 then CHR ''-'' # digits10 (nat (- i)) else digits10 (nat i))"

fun group3 :: "string \<Rightarrow> string" where
  \<comment> \<open>on the digits from the least significant: a comma after every third digit that
      has a digit after it\<close>
  "group3 (a # b # c # d # rest) = a # b # c # CHR '','' # group3 (d # rest)"
| "group3 ds = ds"

definition fmt_commas :: "int \<Rightarrow> string" where
  \<comment> \<open>the format \<^verbatim>\<open>f"{i:,}"\<close>\<close>
  "fmt_commas i = (if i < 0 then [CHR ''-''] else []) @ rev (group3 (rev (digits10 (nat \<bar>i\<bar>))))"

definition py_str :: "(json \<Rightarrow> string) \<Rightarrow> json \<Rightarrow> string" where
  \<comment> \<open>\<^verbatim>\<open>str(x)\<close>; the text of a float, a list or a dictionary is left to \<open>repr\<close>, the
      interpreter's rendering of them\<close>
  "py_str repr x = (case x of
       JNull \<Rightarrow> ''None''
     | JBool b \<Rightarrow> (if b then ''True'' else ''False'')
     | JInt i \<Rightarrow> str_int i
     | JStr s \<Rightarrow> s
     | _ \<Rightarrow> repr x)"

fun bit_length :: "nat \<Rightarrow> nat" where
  "bit_length n = (if n = 0 then 0 else Suc (bit_length (n div 2)))"

declare bit_length.simps [simp del]

definition float_of_int :: "int \<Rightarrow> pyfloat option" where
  \<comment> \<open>\<^verbatim>\<open>float(i)\<close> for an integer: the nearest double, ties to the even significand of 53
      bits; \<open>None\<close> is \<^verbatim>\<open>OverflowError\<close>\<close>
  "float_of_int i =
     (let n = nat \<bar>i\<bar>;
          e = bit_length n - 53;
          q = n div 2 ^ e;
          r = n mod 2 ^ e;
          m = (if 2 * r > 2 ^ e \<or> (2 * r = 2 ^ e \<and> odd q) then q + 1 else q);
          v = m * 2 ^ e
      in if v \<ge> 2 ^ 1024 then None
         else Some (Finite (if i < 0 then - real v else real v)))"

definition py_float :: "(string \<Rightarrow> pyfloat option) \<Rightarrow> json \<Rightarrow> pyfloat option" where
  \<comment> \<open>\<^verbatim>\<open>float(x)\<close>: \<open>None\<close> is the exception it raises (\<^verbatim>\<open>TypeError\<close>,
      \<^verbatim>\<open>ValueError\<close> or \<^verbatim>\<open>OverflowError\<close>). Reading a float out of a string is the
      interpreter's: \<open>float_of_str\<close>.\<close>
  "py_float float_of_str x = (case x of
       JFloat f \<Rightarrow> Some f
     | JInt i \<Rightarrow> float_of_int i
     | JBool b \<Rightarrow> Some (Finite (if b then 1 else 0))
     | JStr s \<Rightarrow> float_of_str s
     | _ \<Rightarrow> None)"

definition py_int :: "json \<Rightarrow> int option" where
  \<comment> \<open>\<^verbatim>\<open>int(x)\<close>: a float is truncated towards zero; \<open>None\<close> is the exception raised\<close>
  "py_int x = (case x of
       JInt i \<Rightarrow> Some i
     | JBool b \<Rightarrow> Some (if b then 1 else 0)
     | JFloat (Finite r) \<Rightarrow> Some (if r < 0 then \<lceil>r\<rceil> else \<lfloor>r\<rfloor>)
     | JStr s \<Rightarrow> int_of_string s
     | _ \<Rightarrow> None)"

definition int_instance :: "json \<Rightarrow> int option" where
  \<comment> \<open>\<^verbatim>\<open>isinstance(x, int)\<close>, with the integer that \<open>x\<close> then is: \<^verbatim>\<open>bool\<close> is a
      subclass of \<^verbatim>\<open>int\<close>\<close>
  "int_instance x = (case x of
       JInt i \<Rightarrow> Some i
     | JBool b \<Rightarrow> Some (if b then 1 else 0)
     | _ \<Rightarrow> None)"

definition py_pos :: "nat \<Rightarrow> int \<Rightarrow> nat option" where
  \<comment> \<open>the position that the index \<open>i\<close> names in a sequence of length \<open>n\<close>; a negative
      index counts from the end; \<open>None\<close> is \<^verbatim>\<open>IndexError\<close>\<close>
  "py_pos n i = (if 0 \<le> i \<and> i < int n then Some (nat i)
                 else if - int n \<le> i \<and> i < 0 then Some (nat (int n + i))
                 else None)"

section \<open>The clock\<close>

text \<open>
  \<^verbatim>\<open>now_iso()\<close> reads the wall clock at second precision and renders it as
  \<^verbatim>\<open>YYYY-MM-DD HH:MM:SS\<close>. A function of this development that calls it takes a
  \<open>clock\<close>: the reading of its \<open>k\<close>-th call (from 0) is \<open>clk k\<close>.
\<close>

type_synonym clock = "nat \<Rightarrow> string"

section \<open>Files\<close>

text \<open>
  A path is a directory and a file name in it. A file holds either a text that
  \<^verbatim>\<open>json.loads\<close> reads back as the value \<^verbatim>\<open>json.dump\<close> was given, or a text that
  \<^verbatim>\<open>read_text\<close> or \<^verbatim>\<open>json.loads\<close> rejects with an exception (undecodable bytes,
  malformed or truncated JSON, the empty text of a file just created). The serialisation
  itself, the work of Python's \<^verbatim>\<open>json\<close> module, is not modelled further.
\<close>

type_synonym path = "string \<times> string"

datatype content = Garbage | Json json

record fs =
  dirs :: "string list"
  files :: "(path \<times> content) list"

definition path_exists :: "fs \<Rightarrow> path \<Rightarrow> bool" where
  "path_exists s p = (map_of (files s) p \<noteq> None)"

definition write_file :: "path \<Rightarrow> content \<Rightarrow> fs \<Rightarrow> fs" where
  "write_file p c s = s\<lparr>files := AList.update p c (files s)\<rparr>"

definition unlink :: "path \<Rightarrow> fs \<Rightarrow> fs" where
  "unlink p s = s\<lparr>files := AList.delete p (files s)\<rparr>"

definition mkdir_parent :: "path \<Rightarrow> fs \<Rightarrow> fs" where
  \<comment> \<open>\<^verbatim>\<open>path.parent.mkdir(parents=True, exist_ok=True)\<close>\<close>
  "mkdir_parent p s = s\<lparr>dirs := List.insert (fst p) (dirs s)\<rparr>"

definition replace_file :: "path \<Rightarrow> path \<Rightarrow> fs \<Rightarrow> fs" where
  \<comment> \<open>\<^verbatim>\<open>os.replace(t, p)\<close> where it succeeds: one step, the file \<open>t\<close> becomes the file \<open>p\<close>\<close>
  "replace_file t p s = (case map_of (files s) t of
       None \<Rightarrow> s
     | Some c \<Rightarrow> write_file p c (unlink t s))"

section \<open>The atomic writer (data_store.py)\<close>

text \<open>
  What the operating system does in one run of \<^verbatim>\<open>safe_write_json\<close> is an input of the
  model: the random part of the name \<^verbatim>\<open>mkstemp\<close> picks, the step that fails, if one
  does, and whether the removal of the temporary file in the \<^verbatim>\<open>finally\<close> block fails
  (that failure the code swallows). \<^verbatim>\<open>mkstemp\<close> never opens a file that exists: a
  picked name that is in use counts as its failure. A write that fails part-way leaves
  an unreadable temporary file; \<^verbatim>\<open>os.replace\<close> either happens as a whole or fails
  without touching anything.
\<close>

datatype oserror = MkdirFailed | MkstempFailed | WriteFailed | ReplaceFailed

record env =
  tmp_rand :: string
  fault :: "oserror option"
  unlink_fails :: bool

definition mkstemp_path :: "env \<Rightarrow> path \<Rightarrow> path" where
  \<comment> \<open>\<^verbatim>\<open>mkstemp(prefix="._mods_", suffix=".json", dir=str(path.parent))\<close>\<close>
  "mkstemp_path e p = (fst p, ''._mods_'' @ tmp_rand e @ ''.json'')"

definition cleanup :: "env \<Rightarrow> path \<Rightarrow> fs \<Rightarrow> fs" where
  \<comment> \<open>the \<^verbatim>\<open>finally\<close> block: \<^verbatim>\<open>if tmp_path.exists(): tmp_path.unlink()\<close>, any exception
      of which is passed over\<close>
  "cleanup e t s = (if path_exists s t \<and> \<not> unlink_fails e then unlink t s else s)"

definition safe_write_json_steps :: "env \<Rightarrow> path \<Rightarrow> json \<Rightarrow> fs \<Rightarrow> (oserror + unit) \<times> fs list" where
  \<comment> \<open>the result (\<open>Inl\<close>: the exception that reaches the caller) and the state of the file
      system after each step that was taken\<close>
  "safe_write_json_steps e p data s =
     (if fault e = Some MkdirFailed then (Inl MkdirFailed, [])
      else
        let s1 = mkdir_parent p s; t = mkstemp_path e p in
        if fault e = Some MkstempFailed \<or> path_exists s1 t then (Inl MkstempFailed, [s1])
        else
          let s2 = write_file t Garbage s1 in
          if fault e = Some WriteFailed then (Inl WriteFailed, [s1, s2, cleanup e t s2])
          else
            let s3 = write_file t (Json data) s2 in
            if fault e = Some ReplaceFailed then (Inl ReplaceFailed, [s1, s2, s3, cleanup e t s3])
            else
              let s4 = replace_file t p s3 in
              (Inr (), [s1, s2, s3, s4, cleanup e t s4]))"

definition safe_write_json :: "env \<Rightarrow> path \<Rightarrow> json \<Rightarrow> fs \<Rightarrow> (oserror + unit) \<times> fs" where
  "safe_write_json e p data s =
     (case safe_write_json_steps e p data s of (r, steps) \<Rightarrow> (r, last (s # steps)))"

section \<open>The document store (data_store.py)\<close>

definition data_path :: "string \<Rightarrow> path" where
  \<comment> \<open>\<^verbatim>\<open>base_dir() / DATA_FILE\<close>; the argument is \<^verbatim>\<open>base_dir()\<close>\<close>
  "data_path base = (base, ''maxine_mods.json'')"

definition default_vehicle :: "dict" where
  "default_vehicle = [
      (''id'', JStr ''maxine-06-maxima''),
      (''name'', JStr ''Maxine''),
      (''year'', JInt 2006),
      (''make'', JStr ''Nissan''),
      (''model'', JStr ''Maxima''),
      (''current_mileage'', JNull),
      (''items'', JList []),
      (''maintenance'', JList [])]"

definition default_data :: "string \<Rightarrow> dict" where
  \<comment> \<open>the argument is the reading of the one \<^verbatim>\<open>now_iso()\<close> call\<close>
  "default_data now = [
      (''schema'', JInt 1),
      (''active_vehicle_id'', JStr ''maxine-06-maxima''),
      (''vehicles'', JList [JDict default_vehicle]),
      (''updated_at'', JStr now)]"

datatype pyexn = AttributeError | TypeError | IndexError | KeyError | ValueError | OSError oserror

definition backfill_dict :: "dict \<Rightarrow> dict" where
  \<comment> \<open>the three \<^verbatim>\<open>setdefault\<close> calls of the loop over \<^verbatim>\<open>raw["vehicles"]\<close>\<close>
  "backfill_dict d =
     setdefault ''maintenance'' (JList [])
       (setdefault ''items'' (JList [])
         (setdefault ''current_mileage'' JNull d))"

definition backfill_vehicle :: "json \<Rightarrow> pyexn + json" where
  \<comment> \<open>the body of that loop: only a dictionary has \<^verbatim>\<open>setdefault\<close>\<close>
  "backfill_vehicle v = (case v of
       JDict d \<Rightarrow> Inr (JDict (backfill_dict d))
     | _ \<Rightarrow> Inl AttributeError)"

fun backfill_all :: "json list \<Rightarrow> pyexn + json list" where
  "backfill_all [] = Inr []"
| "backfill_all (v # vs) = (case backfill_vehicle v of
       Inl e \<Rightarrow> Inl e
     | Inr v' \<Rightarrow> (case backfill_all vs of Inl e \<Rightarrow> Inl e | Inr vs' \<Rightarrow> Inr (v' # vs')))"

definition backfill_vehicles :: "json \<Rightarrow> pyexn + json" where
  \<comment> \<open>\<^verbatim>\<open>for v in raw["vehicles"]: ...\<close> on a value that is truthy: a list is walked; a
      non-empty string or dictionary yields strings, which have no \<^verbatim>\<open>setdefault\<close>; a
      number or a boolean is not iterable\<close>
  "backfill_vehicles vs = (case vs of
       JList xs \<Rightarrow> (case backfill_all xs of Inl e \<Rightarrow> Inl e | Inr ys \<Rightarrow> Inr (JList ys))
     | JStr _ \<Rightarrow> Inl AttributeError
     | JDict _ \<Rightarrow> Inl AttributeError
     | _ \<Rightarrow> Inl TypeError)"

definition schema_is_1 :: "dict \<Rightarrow> bool" where
  \<comment> \<open>\<^verbatim>\<open>raw.get("schema") == 1\<close>\<close>
  "schema_is_1 raw = (case map_of raw ''schema'' of Some t \<Rightarrow> eq_int t 1 | None \<Rightarrow> False)"

definition load_schema1 :: "clock \<Rightarrow> dict \<Rightarrow> pyexn + dict" where
  \<comment> \<open>the branch of \<^verbatim>\<open>load_data\<close> for a dictionary of schema 1. \<open>clk 0\<close> is the argument
      of the first \<^verbatim>\<open>setdefault\<close>, evaluated whether or not the key is there. For an
      empty vehicle list \<^verbatim>\<open>default_data()\<close> reads the clock once more and only its
      vehicles are kept.\<close>
  "load_schema1 clk raw =
     (let raw1 = setdefault ''updated_at'' (JStr (clk 0)) raw;
          raw2 = setdefault ''active_vehicle_id'' (JStr ''maxine-06-maxima'') raw1;
          raw3 = setdefault ''vehicles'' (JList []) raw2;
          vs = (case map_of raw3 ''vehicles'' of Some x \<Rightarrow> x | None \<Rightarrow> JList []);
          vs4 = (if \<not> truthy vs then JList [JDict default_vehicle] else vs);
          raw4 = (if \<not> truthy vs then AList.update ''vehicles'' vs4 raw3 else raw3)
      in case backfill_vehicles vs4 of
           Inl e \<Rightarrow> Inl e
         | Inr vs' \<Rightarrow> Inr (AList.update ''vehicles'' vs' raw4))"

definition load_data_file :: "clock \<Rightarrow> content option \<Rightarrow> dict" where
  \<comment> \<open>\<^verbatim>\<open>load_data\<close> on what is at the data path (\<open>None\<close>: no file). An exception inside
      the \<^verbatim>\<open>try\<close> block leads to the final \<^verbatim>\<open>return default_data()\<close>.\<close>
  "load_data_file clk file = (case file of
       None \<Rightarrow> default_data (clk 0)
     | Some Garbage \<Rightarrow> default_data (clk 0)
     | Some (Json (JList raw)) \<Rightarrow>
         AList.update ''updated_at'' (JStr (clk 1))
           (AList.update ''vehicles''
              (JList [JDict (AList.update ''items'' (JList raw) default_vehicle)])
              (default_data (clk 0)))
     | Some (Json (JDict raw)) \<Rightarrow>
         (if schema_is_1 raw
          then (case load_schema1 clk raw of
                  Inr d \<Rightarrow> d
                | Inl e \<Rightarrow> default_data (clk 1))
          else default_data (clk 0))
     | Some (Json _) \<Rightarrow> default_data (clk 0))"

definition load_data :: "clock \<Rightarrow> string \<Rightarrow> fs \<Rightarrow> dict" where
  "load_data clk base s = load_data_file clk (map_of (files s) (data_path base))"

definition save_data :: "clock \<Rightarrow> env \<Rightarrow> string \<Rightarrow> dict \<Rightarrow> fs \<Rightarrow> (oserror + unit) \<times> dict \<times> fs" where
  \<comment> \<open>the result, the caller's dictionary after the call, and the file system after it\<close>
  "save_data clk e base data s =
     (let data' = AList.update ''updated_at'' (JStr (clk 0)) data;
          (r, s') = safe_write_json e (data_path base) (JDict data') s
      in (r, data', s'))"

section \<open>The settings store (data_store.py)\<close>

definition settings_path :: "string \<Rightarrow> path" where
  "settings_path base = (base, ''maxine_settings.json'')"

definition DEFAULT_UI_SCALE :: "pyfloat" where
  \<comment> \<open>the double that the literal \<^verbatim>\<open>1.45\<close> denotes\<close>
  "DEFAULT_UI_SCALE = Finite (6530219459687219 / 4503599627370496)"

definition DEFAULT_THEME :: "string" where
  "DEFAULT_THEME = ''dark''"

definition default_settings :: "string \<Rightarrow> dict" where
  "default_settings now = [
      (''schema'', JInt 1),
      (''theme'', JStr DEFAULT_THEME),
      (''ui_scale'', JFloat DEFAULT_UI_SCALE),
      (''font_family'', JStr ''Segoe UI''),
      (''font_size'', JInt 13),
      (''autosave_ms'', JInt 20000),
      (''car_mode'', JBool False),
      (''updated_at'', JStr now)]"

definition merge_known :: "dict \<Rightarrow> dict \<Rightarrow> dict" where
  \<comment> \<open>\<^verbatim>\<open>for k in d.keys(): if k in raw: d[k] = raw[k]\<close>\<close>
  "merge_known raw d =
     foldl (\<lambda>acc k. case map_of raw k of Some v \<Rightarrow> AList.update k v acc | None \<Rightarrow> acc) d (map fst d)"

definition sanitize_settings :: "(string \<Rightarrow> pyfloat option) \<Rightarrow> dict \<Rightarrow> pyexn + dict" where
  \<comment> \<open>the lines of \<^verbatim>\<open>load_settings\<close> under the comment \<^verbatim>\<open>sanitize a bit\<close>. A missing
      key is \<^verbatim>\<open>KeyError\<close>: outside the two inner \<^verbatim>\<open>try\<close> blocks it leaves the outer
      one, inside them it selects the default as any other exception does.\<close>
  "sanitize_settings float_of_str d = (case map_of d ''theme'' of
       None \<Rightarrow> Inl KeyError
     | Some th \<Rightarrow>
        (let d1 = (if th \<noteq> JStr ''dark'' \<and> th \<noteq> JStr ''light''
                   then AList.update ''theme'' (JStr DEFAULT_THEME) d else d);
             d2 = AList.update ''ui_scale''
                    (JFloat (case map_of d1 ''ui_scale'' of
                               None \<Rightarrow> DEFAULT_UI_SCALE
                             | Some x \<Rightarrow> (case py_float float_of_str x of
                                            None \<Rightarrow> DEFAULT_UI_SCALE
                                          | Some f \<Rightarrow> f))) d1;
             d3 = AList.update ''autosave_ms''
                    (JInt (case map_of d2 ''autosave_ms'' of
                             None \<Rightarrow> 20000
                           | Some x \<Rightarrow> (case py_int x of None \<Rightarrow> 20000 | Some i \<Rightarrow> i))) d2;
             d4 = AList.update ''car_mode''
                    (JBool (truthy (case map_of d3 ''car_mode'' of
                                      None \<Rightarrow> JBool False
                                    | Some x \<Rightarrow> x))) d3
         in Inr d4))"

definition load_settings_file :: "(string \<Rightarrow> pyfloat option) \<Rightarrow> clock \<Rightarrow> content option \<Rightarrow> dict" where
  "load_settings_file float_of_str clk file = (case file of
       None \<Rightarrow> default_settings (clk 0)
     | Some Garbage \<Rightarrow> default_settings (clk 0)
     | Some (Json (JDict raw)) \<Rightarrow>
         (if schema_is_1 raw
          then (case sanitize_settings float_of_str
                       (AList.update ''updated_at'' (JStr (clk 1))
                          (merge_known raw (default_settings (clk 0)))) of
                  Inr d \<Rightarrow> d
                | Inl e \<Rightarrow> default_settings (clk 2))
          else default_settings (clk 0))
     | Some (Json _) \<Rightarrow> default_settings (clk 0))"

definition load_settings :: "(string \<Rightarrow> pyfloat option) \<Rightarrow> clock \<Rightarrow> string \<Rightarrow> fs \<Rightarrow> dict" where
  "load_settings float_of_str clk base s =
     load_settings_file float_of_str clk (map_of (files s) (settings_path base))"

definition save_settings :: "clock \<Rightarrow> env \<Rightarrow> string \<Rightarrow> dict \<Rightarrow> fs \<Rightarrow> (oserror + unit) \<times> dict \<times> fs" where
  "save_settings clk e base settings s =
     (let settings' = AList.update ''updated_at'' (JStr (clk 0)) settings;
          (r, s') = safe_write_json e (settings_path base) (JDict settings') s
      in (r, settings', s'))"

section \<open>The maintenance view (ui_main.py)\<close>

definition get_or :: "dict \<Rightarrow> string \<Rightarrow> json \<Rightarrow> json" where
  \<comment> \<open>\<^verbatim>\<open>m.get(k, d)\<close>\<close>
  "get_or m k d = (case map_of m k of None \<Rightarrow> d | Some v \<Rightarrow> v)"

definition parse_miles :: "(json \<Rightarrow> string) \<Rightarrow> json \<Rightarrow> int option" where
  \<comment> \<open>\<^verbatim>\<open>int(normalize_int(str(x)))\<close>; \<open>None\<close> is the exception of \<^verbatim>\<open>int\<close>\<close>
  "parse_miles repr x = int_of_string (normalize_int (py_str repr x))"

definition maintenance_due :: "(json \<Rightarrow> string) \<Rightarrow> json \<Rightarrow> dict \<Rightarrow> string \<times> string" where
  \<comment> \<open>the columns \<^verbatim>\<open>due_miles\<close> and \<^verbatim>\<open>remaining\<close> that \<^verbatim>\<open>_refresh_maintenance_list\<close>
      computes for the task \<open>m\<close>, \<open>cur\<close> being \<^verbatim>\<open>self.vehicle.get("current_mileage")\<close>.
      Both start empty; an exception inside the \<^verbatim>\<open>try\<close> block leaves them as they are.\<close>
  "maintenance_due repr cur m =
     (let last_miles = get_or m ''last_miles'' (JStr []);
          interval = get_or m ''interval_miles'' (JStr [])
      in if strip (py_str repr last_miles) \<noteq> [] \<and> strip (py_str repr interval) \<noteq> []
         then (case parse_miles repr last_miles of
                 None \<Rightarrow> ([], [])
               | Some l \<Rightarrow>
                  (case parse_miles repr interval of
                     None \<Rightarrow> ([], [])
                   | Some i \<Rightarrow>
                      (let due_val = l + i
                       in (fmt_commas due_val,
                           case int_instance cur of
                             None \<Rightarrow> []
                           | Some c \<Rightarrow>
                              (let remaining_val = due_val - c
                               in if remaining_val \<ge> 0 then fmt_commas remaining_val
                                  else ''OVERDUE '' @ fmt_commas \<bar>remaining_val\<bar>)))))
         else ([], []))"

text \<open>
  The window holds the document \<^verbatim>\<open>self.data\<close> and a reference \<^verbatim>\<open>self.vehicle\<close> to one of
  the vehicles inside it. The model keeps that vehicle apart, with its position: the
  document that a save sees is \<open>data\<close> with \<open>vehicle\<close> at the place \<open>vidx\<close> of its vehicle
  list.
\<close>

record app =
  data :: dict
  vidx :: nat
  vehicle :: dict
  dirty :: bool
  last_saved_at :: "string option"

definition app_data :: "app \<Rightarrow> dict" where
  "app_data a = (case map_of (data a) ''vehicles'' of
       Some (JList vs) \<Rightarrow> AList.update ''vehicles'' (JList (vs[vidx a := JDict (vehicle a)])) (data a)
     | _ \<Rightarrow> data a)"

datatype outcome = ShowInfo string string | Completed | Raised pyexn

definition sized :: "json \<Rightarrow> bool" where
  \<comment> \<open>the values that \<^verbatim>\<open>len\<close> accepts\<close>
  "sized x = (case x of JStr t \<Rightarrow> True | JList xs \<Rightarrow> True | JDict kvs \<Rightarrow> True | _ \<Rightarrow> False)"

definition is_dict :: "json \<Rightarrow> bool" where
  "is_dict x = (case x of JDict kvs \<Rightarrow> True | _ \<Rightarrow> False)"

definition update_status :: "dict \<Rightarrow> pyexn option \<times> dict" where
  \<comment> \<open>the method \<^verbatim>\<open>_update_status()\<close> on the vehicle: the text of the left label
      evaluates \<^verbatim>\<open>len(self.items)\<close> and then \<^verbatim>\<open>len(self.maintenance)\<close>, and each
      property is a \<^verbatim>\<open>setdefault\<close> on the vehicle. The result is the exception raised, if
      any, and the vehicle afterwards. The texts put into the two labels are not part of
      the state.\<close>
  "update_status v =
     (let v1 = setdefault ''items'' (JList []) v in
      if \<not> sized (get_or v1 ''items'' JNull) then (Some TypeError, v1)
      else
        let v2 = setdefault ''maintenance'' (JList []) v1 in
        if \<not> sized (get_or v2 ''maintenance'' JNull) then (Some TypeError, v2)
        else (None, v2))"

definition mark_dirty :: "app \<Rightarrow> pyexn option \<times> app" where
  \<comment> \<open>the method \<^verbatim>\<open>_mark_dirty()\<close>: the flag is set before the status is redrawn\<close>
  "mark_dirty a = (case update_status (vehicle a) of
       (x, v) \<Rightarrow> (x, a\<lparr>vehicle := v, dirty := True\<rparr>))"

definition save_app :: "clock \<Rightarrow> env \<Rightarrow> string \<Rightarrow> bool \<Rightarrow> app \<Rightarrow> fs \<Rightarrow> pyexn option \<times> app \<times> fs" where
  \<comment> \<open>the method \<^verbatim>\<open>_save(force)\<close>, which ends with \<^verbatim>\<open>_update_status()\<close>\<close>
  "save_app clk e base force a s =
     (if \<not> dirty a \<and> \<not> force then (None, a, s)
      else
        (case save_data clk e base (app_data a) s of
           (Inl err, d, s') \<Rightarrow> (Some (OSError err), a\<lparr>data := d\<rparr>, s')
         | (Inr u, d, s') \<Rightarrow>
             (case update_status (vehicle a) of
                (x, v) \<Rightarrow>
                  (x, a\<lparr>data := d, vehicle := v, dirty := False,
                         last_saved_at := Some (clk 1)\<rparr>, s'))))"

definition walk_tasks :: "json \<Rightarrow> pyexn option" where
  \<comment> \<open>\<^verbatim>\<open>for idx, m in enumerate(self.maintenance)\<close> with \<^verbatim>\<open>m.get(...)\<close> at the head of
      the body: only a dictionary has \<^verbatim>\<open>get\<close>; a non-empty string or dictionary yields
      strings; a number, a boolean or \<^verbatim>\<open>None\<close> is not iterable. Nothing else in the body
      raises (the arithmetic is inside a \<^verbatim>\<open>try\<close>).\<close>
  "walk_tasks x = (case x of
       JList ms \<Rightarrow> (if list_all is_dict ms then None else Some AttributeError)
     | JStr t \<Rightarrow> (if t = [] then None else Some AttributeError)
     | JDict kvs \<Rightarrow> (if kvs = [] then None else Some AttributeError)
     | _ \<Rightarrow> Some TypeError)"

definition refresh_maintenance_list :: "app \<Rightarrow> pyexn option \<times> app" where
  \<comment> \<open>the method \<^verbatim>\<open>_refresh_maintenance_list()\<close>, which ends with
      \<^verbatim>\<open>_update_status()\<close>. The rows it puts into the tree (their last columns are
      \<open>maintenance_due\<close>) are not part of the state.\<close>
  "refresh_maintenance_list a =
     (let v1 = setdefault ''maintenance'' (JList []) (vehicle a) in
      case walk_tasks (get_or v1 ''maintenance'' JNull) of
        Some x \<Rightarrow> (Some x, a\<lparr>vehicle := v1\<rparr>)
      | None \<Rightarrow> (case update_status v1 of (x, v) \<Rightarrow> (x, a\<lparr>vehicle := v\<rparr>)))"

definition stamp_task :: "string \<Rightarrow> string \<Rightarrow> string \<Rightarrow> dict \<Rightarrow> dict" where
  \<comment> \<open>the three assignments of \<^verbatim>\<open>mark_maintenance_done\<close> to the selected task\<close>
  "stamp_task today miles now m =
     AList.update ''updated_at'' (JStr now)
       (AList.update ''last_miles'' (JStr miles)
         (AList.update ''last_date'' (JStr today) m))"

definition finish_mark_done :: "clock \<Rightarrow> env \<Rightarrow> string \<Rightarrow> app \<Rightarrow> fs \<Rightarrow> outcome \<times> app \<times> fs" where
  \<comment> \<open>the last three statements of \<^verbatim>\<open>mark_maintenance_done\<close>:
      \<^verbatim>\<open>self._mark_dirty(); self._save(force=False); self._refresh_maintenance_list()\<close>;
      an exception of one of them ends the method\<close>
  "finish_mark_done clk e base a s =
     (case mark_dirty a of
        (Some x, a1) \<Rightarrow> (Raised x, a1, s)
      | (None, a1) \<Rightarrow>
          (case save_app clk e base False a1 s of
             (Some x, a2, s') \<Rightarrow> (Raised x, a2, s')
           | (None, a2, s') \<Rightarrow>
               (case refresh_maintenance_list a2 of
                  (Some x, a3) \<Rightarrow> (Raised x, a3, s')
                | (None, a3) \<Rightarrow> (Completed, a3, s'))))"

definition mark_maintenance_done ::
  "(json \<Rightarrow> string) \<Rightarrow> string \<Rightarrow> clock \<Rightarrow> env \<Rightarrow> string \<Rightarrow> string list \<Rightarrow> app \<Rightarrow> fs \<Rightarrow> outcome \<times> app \<times> fs" where
  \<comment> \<open>\<open>sel\<close> is the selection of the tree (row identifiers), \<open>today\<close> the reading of
      \<^verbatim>\<open>today_str()\<close>. The property \<^verbatim>\<open>self.maintenance\<close> is
      \<^verbatim>\<open>self.vehicle.setdefault("maintenance", [])\<close>. The clock readings after the one for
      the task are those of the save.\<close>
  "mark_maintenance_done repr today clk e base sel a s =
     (case sel of
        [iid] \<Rightarrow>
          (case int_of_string iid of
             None \<Rightarrow> (Raised ValueError, a, s)
           | Some idx \<Rightarrow>
              (let cur = get_or (vehicle a) ''current_mileage'' JNull in
               if cur = JNull
               then (ShowInfo ''Set current mileage'' ''Set current mileage at the top first.'', a, s)
               else
                 (let v1 = setdefault ''maintenance'' (JList []) (vehicle a);
                      a1 = a\<lparr>vehicle := v1\<rparr>
                  in case get_or v1 ''maintenance'' JNull of
                       JList ms \<Rightarrow>
                         (case py_pos (length ms) idx of
                            None \<Rightarrow> (Raised IndexError, a1, s)
                          | Some n \<Rightarrow>
                             (case ms ! n of
                                JDict m \<Rightarrow>
                                  (let m' = stamp_task today (py_str repr cur) (clk 0) m;
                                       a2 = a1\<lparr>vehicle := AList.update ''maintenance''
                                                    (JList (ms[n := JDict m'])) v1\<rparr>
                                   in finish_mark_done (\<lambda>k. clk (Suc k)) e base a2 s)
                              | _ \<Rightarrow> (Raised TypeError, a1, s)))
                     | JDict kvs \<Rightarrow> (Raised KeyError, a1, s)
                     | JStr t \<Rightarrow>
                         (case py_pos (length t) idx of
                            None \<Rightarrow> (Raised IndexError, a1, s)
                          | Some n \<Rightarrow> (Raised TypeError, a1, s))
                     | _ \<Rightarrow> (Raised TypeError, a1, s))))
      | _ \<Rightarrow> (ShowInfo ''Select one'' ''Select one maintenance row first.'', a, s))"

section \<open>The attachment path allocator (ui_editors.py, maxine_mods.py)\<close>

text \<open>
  Both modules define \<^verbatim>\<open>unique_dest_path\<close> with the same loop. The stem \<open>name\<close> and the
  suffix \<open>ext\<close> of the source path are inputs of the model (they are what
  \<^verbatim>\<open>Path.stem\<close> and \<^verbatim>\<open>Path.suffix\<close>, or \<^verbatim>\<open>os.path.splitext\<close>, return), and so is
  the reading \<open>now\<close> of \<^verbatim>\<open>now_iso()\<close>.
\<close>

definition stamp_of :: "string \<Rightarrow> string" where
  \<comment> \<open>\<^verbatim>\<open>now_iso().replace(":", "").replace(" ", "_").replace("-", "")\<close>\<close>
  "stamp_of now = remove_char CHR ''-'' (replace_char CHR '' '' CHR ''_'' (remove_char CHR '':'' now))"

definition numbered :: "string \<Rightarrow> string \<Rightarrow> string \<Rightarrow> string \<Rightarrow> nat \<Rightarrow> path" where
  \<comment> \<open>\<^verbatim>\<open>dest_folder / f"{name}_{stamp}_{i}{ext}"\<close>\<close>
  "numbered dest name st ext i = (dest, name @ ''_'' @ st @ ''_'' @ digits10 i @ ext)"

text \<open>
  The loop ends because the numbered candidates are pairwise distinct and the files are
  finitely many: the candidates from \<open>i\<close> on that exist become fewer.
\<close>

lemma digit_val_digit_char: "d < 10 \<Longrightarrow> digit_val (digit_char d) = d"
proof -
  assume "d < 10"
  then have "d \<in> {0,1,2,3,4,5,6,7,8,9}" by auto
  then show ?thesis
    by (auto simp: digit_val_def digit_char_def)
qed

lemma digit_char_not_underscore: "d < 10 \<Longrightarrow> digit_char d \<noteq> CHR ''_''"
proof -
  assume "d < 10"
  then have "d \<in> {0,1,2,3,4,5,6,7,8,9}" by auto
  then show ?thesis
    by (auto simp: digit_char_def)
qed

lemma digits_value_snoc:
  "c \<noteq> CHR ''_'' \<Longrightarrow> digits_value (xs @ [c]) = 10 * digits_value xs + digit_val c"
  by (simp add: digits_value_def)

lemma digits_value_digits10: "digits_value (digits10 n) = n"
proof (induction n rule: digits10.induct)
  case (1 n)
  show ?case
  proof (cases "n < 10")
    case True
    then show ?thesis
      by (simp add: digits10.simps [of n] digits_value_def digit_val_digit_char digit_char_not_underscore)
  next
    case False
    with 1 have "digits_value (digits10 (n div 10)) = n div 10" by simp
    with False show ?thesis
      by (simp add: digits10.simps [of n] digits_value_snoc digit_val_digit_char digit_char_not_underscore)
  qed
qed

lemma digits10_inj: "digits10 m = digits10 n \<Longrightarrow> m = n"
  by (metis digits_value_digits10)

lemma numbered_inj: "numbered dest name st ext i = numbered dest name st ext j \<Longrightarrow> i = j"
  by (simp add: numbered_def digits10_inj)

lemma finite_numbered_taken: "finite {j. path_exists s (numbered dest name st ext j)}"
proof -
  have "{j. path_exists s (numbered dest name st ext j)}
          = (numbered dest name st ext) -` (dom (map_of (files s)))"
    by (auto simp: path_exists_def)
  moreover have "inj (numbered dest name st ext)"
    by (rule injI) (rule numbered_inj)
  ultimately show ?thesis
    by (simp add: finite_vimageI finite_dom_map_of)
qed

definition taken_from :: "fs \<Rightarrow> string \<Rightarrow> string \<Rightarrow> string \<Rightarrow> string \<Rightarrow> nat \<Rightarrow> nat" where
  \<comment> \<open>the measure of the loop: how many numbered candidates from \<open>i\<close> on exist\<close>
  "taken_from s dest name st ext i = card {j. i \<le> j \<and> path_exists s (numbered dest name st ext j)}"

lemma taken_from_Suc:
  "taken_from s dest name st ext (Suc i) + (if path_exists s (numbered dest name st ext i) then 1 else 0)
     = taken_from s dest name st ext i"
proof -
  let ?E = "\<lambda>j. path_exists s (numbered dest name st ext j)"
  have fin: "finite {j. Suc i \<le> j \<and> ?E j}"
    by (rule finite_subset [OF _ finite_numbered_taken]) auto
  show ?thesis
  proof (cases "?E i")
    case True
    then have "{j. i \<le> j \<and> ?E j} = insert i {j. Suc i \<le> j \<and> ?E j}" by (auto simp: le_Suc_eq)
    with fin True show ?thesis by (simp add: taken_from_def)
  next
    case False
    then have "{j. i \<le> j \<and> ?E j} = {j. Suc i \<le> j \<and> ?E j}"
      by (auto simp: Suc_le_eq le_less)
    with False show ?thesis by (simp add: taken_from_def)
  qed
qed

function probe :: "fs \<Rightarrow> string \<Rightarrow> string \<Rightarrow> string \<Rightarrow> string \<Rightarrow> path \<Rightarrow> nat \<Rightarrow> path" where
  \<comment> \<open>the \<^verbatim>\<open>while candidate.exists()\<close> loop, from the state \<open>(candidate, i)\<close>\<close>
  "probe s dest name st ext candidate i =
     (if path_exists s candidate
      then probe s dest name st ext (numbered dest name st ext i) (Suc i)
      else candidate)"
  by pat_completeness auto
termination
proof (relation "measure (\<lambda>(s, dest, name, st, ext, candidate, i).
          2 * taken_from s dest name st ext i + (if path_exists s candidate then 1 else 0))")
  show "wf (measure (\<lambda>(s, dest, name, st, ext, candidate, i).
          2 * taken_from s dest name st ext i + (if path_exists s candidate then 1 else 0)))"
    by simp
next
  fix s :: fs and dest name st ext :: string and candidate :: path and i :: nat
  assume "path_exists s candidate"
  then show "((s, dest, name, st, ext, numbered dest name st ext i, Suc i),
              (s, dest, name, st, ext, candidate, i))
             \<in> measure (\<lambda>(s, dest, name, st, ext, candidate, i).
                  2 * taken_from s dest name st ext i + (if path_exists s candidate then 1 else 0))"
    using taken_from_Suc [of s dest name st ext i] by (auto split: if_splits)
qed

declare probe.simps [simp del]

definition unique_dest_path :: "string \<Rightarrow> fs \<Rightarrow> string \<Rightarrow> string \<Rightarrow> string \<Rightarrow> path" where
  "unique_dest_path now s dest name ext =
     (let st = stamp_of now
      in probe s dest name st ext (dest, name @ ''_'' @ st @ ext) 1)"

definition copy2 :: "path \<Rightarrow> path \<Rightarrow> fs \<Rightarrow> fs option" where
  \<comment> \<open>\<^verbatim>\<open>shutil.copy2(src, dest)\<close>; \<open>None\<close> is its exception, which the caller catches\<close>
  "copy2 src dest s = (case map_of (files s) src of
       None \<Rightarrow> None
     | Some c \<Rightarrow> Some (write_file dest c s))"

section \<open>Sample inputs\<close>

definition steady_clock :: "string \<Rightarrow> clock" where
  \<comment> \<open>a clock all of whose readings fall into one second\<close>
  "steady_clock t k = t"

definition sample_fs :: "content \<Rightarrow> fs" where
  \<comment> \<open>an installation in \<^verbatim>\<open>/app\<close> whose data file holds \<open>c\<close>\<close>
  "sample_fs c = \<lparr>dirs = [''/app''], files = [(data_path ''/app'', c)]\<rparr>"

definition sample_env :: "oserror option \<Rightarrow> bool \<Rightarrow> env" where
  \<comment> \<open>a run in which the step \<open>f\<close> fails, if any, and the removal of the temporary file
      fails when \<open>u\<close> holds\<close>
  "sample_env f u = \<lparr>tmp_rand = ''k3f9x2ab'', fault = f, unlink_fails = u\<rparr>"

definition sample_document :: "string \<Rightarrow> dict" where
  \<comment> \<open>a document of schema 1 with one vehicle, last stamped at \<open>t\<close>\<close>
  "sample_document t = [
      (''schema'', JInt 1),
      (''active_vehicle_id'', JStr ''v1''),
      (''vehicles'', JList [JDict [
          (''id'', JStr ''v1''),
          (''name'', JStr ''Maxine''),
          (''current_mileage'', JInt 150000),
          (''items'', JList [JDict [(''name'', JStr ''Coilovers'')]]),
          (''maintenance'', JList [])]]),
      (''updated_at'', JStr t)]"

lemma sample_env_sel [simp]:
  "fault (sample_env f u) = f" "unlink_fails (sample_env f u) = u"
  "tmp_rand (sample_env f u) = ''k3f9x2ab''"
  by (simp_all add: sample_env_def)

lemma sample_fs_lookup [simp]:
  "map_of (files (sample_fs c)) q = (if q = data_path ''/app'' then Some c else None)"
  by (simp add: sample_fs_def)

definition sample_settings_fs :: "content \<Rightarrow> fs" where
  \<comment> \<open>an installation in \<^verbatim>\<open>/app\<close> whose settings file holds \<open>c\<close>\<close>
  "sample_settings_fs c = \<lparr>dirs = [''/app''], files = [(settings_path ''/app'', c)]\<rparr>"

lemma sample_settings_fs_lookup [simp]:
  "map_of (files (sample_settings_fs c)) q = (if q = settings_path ''/app'' then Some c else None)"
  by (simp add: sample_settings_fs_def)

definition sample_repr :: "json \<Rightarrow> string" where
  \<comment> \<open>stands for the interpreter's rendering in samples that render no float, list or
      dictionary\<close>
  "sample_repr x = []"

definition sample_app :: "json \<Rightarrow> app" where
  \<comment> \<open>a window on the sample document whose vehicle has one maintenance task and the
      current mileage \<open>cur\<close>\<close>
  "sample_app cur = \<lparr>
      data = sample_document ''2024-05-01 10:00:00'',
      vidx = 0,
      vehicle = [(''id'', JStr ''v1''), (''name'', JStr ''Maxine''),
                 (''current_mileage'', cur),
                 (''items'', JList []),
                 (''maintenance'', JList [JDict [(''task'', JStr ''Oil change''),
                                                 (''last_miles'', JStr ''100,000''),
                                                 (''interval_miles'', JStr ''3000'')]])],
      dirty = False,
      last_saved_at = None\<rparr>"

definition sample_assets :: "fs" where
  \<comment> \<open>an asset directory that already holds the first candidate for the receipt\<close>
  "sample_assets = \<lparr>dirs = [''/app/maxine_assets''],
      files = [((''/home'', ''receipt.pdf''), Garbage),
               ((''/app/maxine_assets'', ''receipt_20240501_100000.pdf''), Garbage)]\<rparr>"

section \<open>Legacy files\<close>

text \<open>
  C4. A file whose top-level value is a bare list \<open>L\<close> loads as the default document with
  \<open>L\<close> as the items of its single vehicle: exactly one vehicle, an empty maintenance list,
  every other field as \<^verbatim>\<open>default_data()\<close> builds it, the time stamp being the clock
  reading taken after the items were stored.
\<close>

theorem load_data_legacy_list:
  "map_of (files s) (data_path base) = Some (Json (JList L)) \<Longrightarrow>
   load_data clk base s =
     [(''schema'', JInt 1),
      (''active_vehicle_id'', JStr ''maxine-06-maxima''),
      (''vehicles'', JList [JDict [
          (''id'', JStr ''maxine-06-maxima''),
          (''name'', JStr ''Maxine''),
          (''year'', JInt 2006),
          (''make'', JStr ''Nissan''),
          (''model'', JStr ''Maxima''),
          (''current_mileage'', JNull),
          (''items'', JList L),
          (''maintenance'', JList [])]]),
      (''updated_at'', JStr (clk 1))]"
  by (simp add: load_data_def load_data_file_def default_data_def default_vehicle_def)

theorem load_data_legacy_list_witness:
  "load_data (steady_clock ''2024-05-01 10:00:00'') ''/app''
       (sample_fs (Json (JList [JDict [(''name'', JStr ''Coilovers'')]]))) =
     [(''schema'', JInt 1),
      (''active_vehicle_id'', JStr ''maxine-06-maxima''),
      (''vehicles'', JList [JDict [
          (''id'', JStr ''maxine-06-maxima''),
          (''name'', JStr ''Maxine''),
          (''year'', JInt 2006),
          (''make'', JStr ''Nissan''),
          (''model'', JStr ''Maxima''),
          (''current_mileage'', JNull),
          (''items'', JList [JDict [(''name'', JStr ''Coilovers'')]]),
          (''maintenance'', JList [])]]),
      (''updated_at'', JStr ''2024-05-01 10:00:00'')]"
  using load_data_legacy_list [of "sample_fs (Json (JList [JDict [(''name'', JStr ''Coilovers'')]]))"
      "''/app''" "[JDict [(''name'', JStr ''Coilovers'')]]" "steady_clock ''2024-05-01 10:00:00''"]
  by (simp add: sample_fs_def steady_clock_def)

section \<open>What a load returns\<close>



lemma map_of_setdefault:
  "map_of (setdefault k v d) k' =
     (if k' = k then (case map_of d k of None \<Rightarrow> Some v | Some w \<Rightarrow> Some w) else map_of d k')"
  by (simp add: setdefault_def update_conv' split: option.splits)

lemma setdefault_present: "map_of d k = Some w \<Longrightarrow> setdefault k v d = d"
  by (simp add: setdefault_def)

lemma map_of_backfill_dict:
  "map_of (backfill_dict d) k =
     (case map_of d k of
        Some w \<Rightarrow> Some w
      | None \<Rightarrow> (if k = ''maintenance'' \<or> k = ''items'' then Some (JList [])
                 else if k = ''current_mileage'' then Some JNull else None))"
  by (simp add: backfill_dict_def map_of_setdefault split: option.splits)

lemma backfill_all_Inr:
  "backfill_all xs = Inr ys \<Longrightarrow>
     list_all2 (\<lambda>x y. \<exists>d. x = JDict d \<and> y = JDict (backfill_dict d)) xs ys"
proof (induction xs arbitrary: ys)
  case Nil
  then show ?case by simp
next
  case (Cons x xs)
  then show ?case
    by (auto simp: backfill_vehicle_def split: sum.splits json.splits)
qed

lemma backfill_all_length: "backfill_all xs = Inr ys \<Longrightarrow> length ys = length xs"
  by (drule backfill_all_Inr) (simp add: list_all2_lengthD)

lemma backfill_all_keys:
  assumes "backfill_all xs = Inr ys" and "y \<in> set ys"
  shows "\<exists>m. y = JDict m \<and> map_of m ''items'' \<noteq> None \<and> map_of m ''maintenance'' \<noteq> None
            \<and> map_of m ''current_mileage'' \<noteq> None"
proof -
  from assms(2) obtain i where i: "i < length ys" "ys ! i = y"
    by (auto simp: in_set_conv_nth)
  from backfill_all_Inr [OF assms(1)] i obtain d where "y = JDict (backfill_dict d)"
    by (auto simp: list_all2_conv_all_nth)
  then show ?thesis
    by (simp add: map_of_backfill_dict split: option.splits)
qed

lemma load_schema1_vehicles:
  assumes "load_schema1 clk raw = Inr d"
  shows "\<exists>vs. map_of d ''vehicles'' = Some (JList vs) \<and> vs \<noteq> [] \<and>
           (\<forall>v \<in> set vs. \<exists>m. v = JDict m \<and> map_of m ''items'' \<noteq> None
               \<and> map_of m ''maintenance'' \<noteq> None \<and> map_of m ''current_mileage'' \<noteq> None)"
proof -
  define raw3 where "raw3 = setdefault ''vehicles'' (JList [])
      (setdefault ''active_vehicle_id'' (JStr ''maxine-06-maxima'')
         (setdefault ''updated_at'' (JStr (clk 0)) raw))"
  define vs where "vs = (case map_of raw3 ''vehicles'' of Some x \<Rightarrow> x | None \<Rightarrow> JList [])"
  define vs4 where "vs4 = (if \<not> truthy vs then JList [JDict default_vehicle] else vs)"
  define raw4 where "raw4 = (if \<not> truthy vs then AList.update ''vehicles'' vs4 raw3 else raw3)"
  have eq: "load_schema1 clk raw = (case backfill_vehicles vs4 of
              Inl e \<Rightarrow> Inl e | Inr vs' \<Rightarrow> Inr (AList.update ''vehicles'' vs' raw4))"
    unfolding load_schema1_def Let_def raw3_def vs_def vs4_def raw4_def by (rule refl)
  from assms eq obtain vs' where b: "backfill_vehicles vs4 = Inr vs'"
    and d: "d = AList.update ''vehicles'' vs' raw4"
    by (cases "backfill_vehicles vs4") auto
  from b obtain xs ys where xs: "vs4 = JList xs" "backfill_all xs = Inr ys" "vs' = JList ys"
    by (auto simp: backfill_vehicles_def split: json.splits sum.splits)
  have "truthy vs4"
    by (simp add: vs4_def truthy_def)
  with xs have "xs \<noteq> []" by (simp add: truthy_def)
  with backfill_all_length [OF xs(2)] have "ys \<noteq> []" by auto
  moreover from d xs have "map_of d ''vehicles'' = Some (JList ys)"
    by (simp add: update_conv')
  ultimately show ?thesis using backfill_all_keys [OF xs(2)] by auto
qed

lemma default_data_vehicles:
  "map_of (default_data t) ''vehicles'' = Some (JList [JDict default_vehicle])"
  by (simp add: default_data_def)

lemma default_vehicle_keys:
  "map_of default_vehicle ''items'' = Some (JList [])"
  "map_of default_vehicle ''maintenance'' = Some (JList [])"
  "map_of default_vehicle ''current_mileage'' = Some JNull"
  by (simp_all add: default_vehicle_def)

lemma load_keys_present:
  "\<exists>vs. map_of (load_data_file clk fc) ''vehicles'' = Some (JList vs) \<and> vs \<noteq> [] \<and>
           (\<forall>v \<in> set vs. \<exists>m. v = JDict m \<and> map_of m ''items'' \<noteq> None
               \<and> map_of m ''maintenance'' \<noteq> None \<and> map_of m ''current_mileage'' \<noteq> None)"
proof -
  have dflt: "\<And>t. \<exists>vs. map_of (default_data t) ''vehicles'' = Some (JList vs) \<and> vs \<noteq> [] \<and>
           (\<forall>v \<in> set vs. \<exists>m. v = JDict m \<and> map_of m ''items'' \<noteq> None
               \<and> map_of m ''maintenance'' \<noteq> None \<and> map_of m ''current_mileage'' \<noteq> None)"
    by (simp add: default_data_vehicles default_vehicle_keys)
  show ?thesis
  proof (cases fc)
    case None
    then show ?thesis using dflt by (simp add: load_data_file_def)
  next
    case (Some c)
    show ?thesis
    proof (cases c)
      case Garbage
      with Some show ?thesis using dflt by (simp add: load_data_file_def)
    next
      case (Json j)
      show ?thesis
      proof (cases j)
        case (JList L)
        with Some Json show ?thesis
          by (simp add: load_data_file_def default_data_def default_vehicle_def)
      next
        case (JDict raw)
        show ?thesis
        proof (cases "schema_is_1 raw")
          case False
          with Some Json JDict show ?thesis using dflt by (simp add: load_data_file_def)
        next
          case True
          show ?thesis
          proof (cases "load_schema1 clk raw")
            case (Inl e)
            with True Some Json JDict show ?thesis using dflt by (simp add: load_data_file_def)
          next
            case (Inr d)
            with True Some Json JDict load_schema1_vehicles [OF Inr] show ?thesis
              by (simp add: load_data_file_def)
          qed
        qed
      qed (use Some Json dflt in \<open>simp_all add: load_data_file_def\<close>)
    qed
  qed
qed


lemma backfill_all_map:
  "backfill_all (map JDict ds) = Inr (map (\<lambda>d. JDict (backfill_dict d)) ds)"
  by (induction ds) (simp_all add: backfill_vehicle_def)

lemma load_schema1_dicts:
  assumes "map_of raw ''vehicles'' = Some (JList (map JDict ds))" and "ds \<noteq> []"
  shows "\<exists>d. load_schema1 clk raw = Inr d \<and>
             map_of d ''vehicles'' = Some (JList (map (\<lambda>d. JDict (backfill_dict d)) ds))"
  using assms
  by (simp add: load_schema1_def Let_def map_of_setdefault truthy_def backfill_vehicles_def
        backfill_all_map update_conv')

text \<open>
  C3 (as the code has it). Whatever is on disk, the loaded document has a non-empty list
  of vehicles, each a dictionary with the keys \<^verbatim>\<open>items\<close>, \<^verbatim>\<open>maintenance\<close> and
  \<^verbatim>\<open>current_mileage\<close>. For a file of schema 1 with a non-empty list of vehicles the
  loaded vehicles are those of the file, each passed through the three \<^verbatim>\<open>setdefault\<close>
  calls: a key that the file lacks gets its default (an empty list, an empty list,
  \<^verbatim>\<open>None\<close>), a key that the file has keeps the value of the file, of whatever type.
\<close>

theorem load_data_vehicles_backfilled:
  "(\<exists>vs. map_of (load_data clk base s) ''vehicles'' = Some (JList vs) \<and> vs \<noteq> [] \<and>
        (\<forall>v \<in> set vs. \<exists>m. v = JDict m \<and> map_of m ''items'' \<noteq> None
            \<and> map_of m ''maintenance'' \<noteq> None \<and> map_of m ''current_mileage'' \<noteq> None))
   \<and> (map_of (files s) (data_path base) = Some (Json (JDict raw)) \<and> schema_is_1 raw
        \<and> map_of raw ''vehicles'' = Some (JList (map JDict ds)) \<and> ds \<noteq> []
      \<longrightarrow> map_of (load_data clk base s) ''vehicles''
            = Some (JList (map (\<lambda>d. JDict (backfill_dict d)) ds)))
   \<and> map_of (backfill_dict d) ''items''
        = Some (case map_of d ''items'' of None \<Rightarrow> JList [] | Some w \<Rightarrow> w)
   \<and> map_of (backfill_dict d) ''maintenance''
        = Some (case map_of d ''maintenance'' of None \<Rightarrow> JList [] | Some w \<Rightarrow> w)
   \<and> map_of (backfill_dict d) ''current_mileage''
        = Some (case map_of d ''current_mileage'' of None \<Rightarrow> JNull | Some w \<Rightarrow> w)"
proof (intro conjI impI)
  show "\<exists>vs. map_of (load_data clk base s) ''vehicles'' = Some (JList vs) \<and> vs \<noteq> [] \<and>
        (\<forall>v \<in> set vs. \<exists>m. v = JDict m \<and> map_of m ''items'' \<noteq> None
            \<and> map_of m ''maintenance'' \<noteq> None \<and> map_of m ''current_mileage'' \<noteq> None)"
    unfolding load_data_def by (rule load_keys_present)
next
  assume a: "map_of (files s) (data_path base) = Some (Json (JDict raw)) \<and> schema_is_1 raw
        \<and> map_of raw ''vehicles'' = Some (JList (map JDict ds)) \<and> ds \<noteq> []"
  then obtain d' where "load_schema1 clk raw = Inr d'"
    "map_of d' ''vehicles'' = Some (JList (map (\<lambda>d. JDict (backfill_dict d)) ds))"
    using load_schema1_dicts [of raw ds clk] by auto
  with a show "map_of (load_data clk base s) ''vehicles''
            = Some (JList (map (\<lambda>d. JDict (backfill_dict d)) ds))"
    by (simp add: load_data_def load_data_file_def)
qed (simp_all add: map_of_backfill_dict split: option.splits)

theorem load_data_vehicles_backfilled_witness:
  "map_of (load_data (steady_clock ''2024-05-01 10:00:00'') ''/app''
      (sample_fs (Json (JDict [(''schema'', JInt 1),
          (''vehicles'', JList [JDict [(''id'', JStr ''v1''), (''items'', JNull)]])]))))
     ''vehicles''
   = Some (JList [JDict [(''id'', JStr ''v1''), (''items'', JNull),
                         (''current_mileage'', JNull), (''maintenance'', JList [])]])"
  using load_data_vehicles_backfilled [of "steady_clock ''2024-05-01 10:00:00''" "''/app''"
      "sample_fs (Json (JDict [(''schema'', JInt 1),
          (''vehicles'', JList [JDict [(''id'', JStr ''v1''), (''items'', JNull)]])]))"
      "[(''schema'', JInt 1),
          (''vehicles'', JList [JDict [(''id'', JStr ''v1''), (''items'', JNull)]])]"
      "[[(''id'', JStr ''v1''), (''items'', JNull)]]"]
  by (simp add: schema_is_1_def eq_int_def backfill_dict_def setdefault_def)

text \<open>
  C3 as stated asks for more: that \<^verbatim>\<open>items\<close> and \<^verbatim>\<open>maintenance\<close> are sequences and
  \<^verbatim>\<open>current_mileage\<close> an integer or \<^verbatim>\<open>None\<close>. The file
  \<^verbatim>\<open>{"schema": 1, "vehicles": [{"id": "v1", "items": null}]}\<close> loads with the
  \<^verbatim>\<open>items\<close> of its vehicle still \<^verbatim>\<open>None\<close>.
\<close>

theorem load_data_null_items_counterexample:
  "map_of (load_data (steady_clock ''2024-05-01 10:00:00'') ''/app''
      (sample_fs (Json (JDict [(''schema'', JInt 1),
          (''vehicles'', JList [JDict [(''id'', JStr ''v1''), (''items'', JNull)]])]))))
     ''vehicles''
   = Some (JList [JDict [(''id'', JStr ''v1''), (''items'', JNull),
                         (''current_mileage'', JNull), (''maintenance'', JList [])]])
   \<and> map_of [(''id'', JStr ''v1''), (''items'', JNull),
              (''current_mileage'', JNull), (''maintenance'', JList [])] ''items'' = Some JNull"
  by (simp add: load_data_def load_data_file_def schema_is_1_def
        eq_int_def load_schema1_def Let_def setdefault_def truthy_def backfill_vehicles_def
        backfill_vehicle_def backfill_dict_def)


lemma schema_is_1_iff:
  "schema_is_1 raw \<longleftrightarrow>
     map_of raw ''schema'' = Some (JInt 1) \<or> map_of raw ''schema'' = Some (JBool True)
       \<or> map_of raw ''schema'' = Some (JFloat (Finite 1))"
  by (auto simp: schema_is_1_def eq_int_def split: option.splits json.splits pyfloat.splits)

text \<open>
  C2 (as the code has it). A load returns a document for every content of the data file;
  the exceptions of the \<^verbatim>\<open>try\<close> block are values of the model and end in the final
  \<^verbatim>\<open>return default_data()\<close>. The default document is returned when there is no file,
  when the text does not parse, when the top-level value is neither a list nor a
  dictionary, when the dictionary has no schema tag or one that does not compare equal to
  1 (the values that do are the integer 1, the float 1.0 and \<^verbatim>\<open>true\<close>), and when the walk
  over the vehicles of a schema-1 dictionary raises.
\<close>

theorem load_data_falls_back:
  "(map_of (files s) (data_path base) = None \<longrightarrow> load_data clk base s = default_data (clk 0))
   \<and> (map_of (files s) (data_path base) = Some Garbage \<longrightarrow>
         load_data clk base s = default_data (clk 0))
   \<and> (map_of (files s) (data_path base) = Some (Json j)
         \<and> (\<forall>xs. j \<noteq> JList xs) \<and> (\<forall>d. j \<noteq> JDict d) \<longrightarrow>
         load_data clk base s = default_data (clk 0))
   \<and> (map_of (files s) (data_path base) = Some (Json (JDict raw))
         \<and> map_of raw ''schema'' \<noteq> Some (JInt 1)
         \<and> map_of raw ''schema'' \<noteq> Some (JBool True)
         \<and> map_of raw ''schema'' \<noteq> Some (JFloat (Finite 1)) \<longrightarrow>
         load_data clk base s = default_data (clk 0))
   \<and> (map_of (files s) (data_path base) = Some (Json (JDict raw))
         \<and> schema_is_1 raw \<and> load_schema1 clk raw = Inl x \<longrightarrow>
         load_data clk base s = default_data (clk 1))"
proof (intro conjI impI)
  assume "map_of (files s) (data_path base) = None"
  then show "load_data clk base s = default_data (clk 0)"
    by (simp add: load_data_def load_data_file_def)
next
  assume "map_of (files s) (data_path base) = Some Garbage"
  then show "load_data clk base s = default_data (clk 0)"
    by (simp add: load_data_def load_data_file_def)
next
  assume "map_of (files s) (data_path base) = Some (Json j)
         \<and> (\<forall>xs. j \<noteq> JList xs) \<and> (\<forall>d. j \<noteq> JDict d)"
  then show "load_data clk base s = default_data (clk 0)"
    by (cases j) (simp_all add: load_data_def load_data_file_def)
next
  assume "map_of (files s) (data_path base) = Some (Json (JDict raw))
         \<and> map_of raw ''schema'' \<noteq> Some (JInt 1)
         \<and> map_of raw ''schema'' \<noteq> Some (JBool True)
         \<and> map_of raw ''schema'' \<noteq> Some (JFloat (Finite 1))"
  then show "load_data clk base s = default_data (clk 0)"
    by (simp add: load_data_def load_data_file_def schema_is_1_iff)
next
  assume "map_of (files s) (data_path base) = Some (Json (JDict raw))
         \<and> schema_is_1 raw \<and> load_schema1 clk raw = Inl x"
  then show "load_data clk base s = default_data (clk 1)"
    by (simp add: load_data_def load_data_file_def)
qed

theorem load_data_falls_back_witness:
  "load_data (steady_clock ''2024-05-01 10:00:00'') ''/app''
       (sample_fs (Json (JDict [(''schema'', JInt 2), (''vehicles'', JList [])])))
     = default_data ''2024-05-01 10:00:00''
   \<and> load_data (steady_clock ''2024-05-01 10:00:00'') ''/app'' (sample_fs Garbage)
     = default_data ''2024-05-01 10:00:00''
   \<and> load_data (steady_clock ''2024-05-01 10:00:00'') ''/app'' (sample_fs (Json (JStr ''x'')))
     = default_data ''2024-05-01 10:00:00''
   \<and> load_data (steady_clock ''2024-05-01 10:00:00'') ''/app'' \<lparr>dirs = [], files = []\<rparr>
     = default_data ''2024-05-01 10:00:00''
   \<and> load_data (steady_clock ''2024-05-01 10:00:00'') ''/app''
       (sample_fs (Json (JDict [(''schema'', JInt 1), (''vehicles'', JInt 5)])))
     = default_data ''2024-05-01 10:00:00''"
  using load_data_falls_back [of "sample_fs (Json (JDict [(''schema'', JInt 2), (''vehicles'', JList [])]))"
          "''/app''" "steady_clock ''2024-05-01 10:00:00''" "JNull"
          "[(''schema'', JInt 2), (''vehicles'', JList [])]" "TypeError"]
        load_data_falls_back [of "sample_fs Garbage"
          "''/app''" "steady_clock ''2024-05-01 10:00:00''" "JNull" "[]" "TypeError"]
        load_data_falls_back [of "sample_fs (Json (JStr ''x''))"
          "''/app''" "steady_clock ''2024-05-01 10:00:00''" "JStr ''x''" "[]" "TypeError"]
        load_data_falls_back [of "\<lparr>dirs = [], files = []\<rparr>"
          "''/app''" "steady_clock ''2024-05-01 10:00:00''" "JNull" "[]" "TypeError"]
        load_data_falls_back [of "sample_fs (Json (JDict [(''schema'', JInt 1), (''vehicles'', JInt 5)]))"
          "''/app''" "steady_clock ''2024-05-01 10:00:00''" "JNull"
          "[(''schema'', JInt 1), (''vehicles'', JInt 5)]" "TypeError"]
  by (simp add: steady_clock_def schema_is_1_def eq_int_def load_schema1_def Let_def
        setdefault_def truthy_def backfill_vehicles_def)

text \<open>
  C2 as stated returns the default document for every dictionary whose schema tag is not
  1. The file \<^verbatim>\<open>{"schema": true, "vehicles": [{"id": "v1"}]}\<close> has the tag \<^verbatim>\<open>true\<close>,
  which is not the integer 1 but compares equal to it: the file is loaded as a document
  of schema 1, and what comes back is not the default document.
\<close>

theorem load_data_schema_true_counterexample:
  "map_of [(''schema'', JBool True), (''vehicles'', JList [JDict [(''id'', JStr ''v1'')]])] ''schema''
     \<noteq> Some (JInt 1)
   \<and> load_data (steady_clock ''2024-05-01 10:00:00'') ''/app''
       (sample_fs (Json (JDict [(''schema'', JBool True),
                                (''vehicles'', JList [JDict [(''id'', JStr ''v1'')]])])))
     = [(''schema'', JBool True),
        (''vehicles'', JList [JDict [(''id'', JStr ''v1''), (''current_mileage'', JNull),
                                     (''items'', JList []), (''maintenance'', JList [])]]),
        (''updated_at'', JStr ''2024-05-01 10:00:00''),
        (''active_vehicle_id'', JStr ''maxine-06-maxima'')]
   \<and> load_data (steady_clock ''2024-05-01 10:00:00'') ''/app''
       (sample_fs (Json (JDict [(''schema'', JBool True),
                                (''vehicles'', JList [JDict [(''id'', JStr ''v1'')]])])))
     \<noteq> default_data ''2024-05-01 10:00:00''"
  by (simp add: load_data_def load_data_file_def schema_is_1_def
        eq_int_def load_schema1_def Let_def setdefault_def truthy_def backfill_vehicles_def
        backfill_vehicle_def backfill_dict_def steady_clock_def default_data_def)


section \<open>What the atomic writer leaves on disk\<close>

lemma map_of_write_file [simp]:
  "map_of (files (write_file p c s)) q = (if q = p then Some c else map_of (files s) q)"
  by (simp add: write_file_def update_conv')

lemma map_of_unlink [simp]:
  "map_of (files (unlink p s)) q = (if q = p then None else map_of (files s) q)"
  by (simp add: unlink_def delete_conv')

lemma files_mkdir_parent [simp]: "files (mkdir_parent p s) = files s"
  by (simp add: mkdir_parent_def)

lemma dirs_mkdir_parent [simp]: "set (dirs (mkdir_parent p s)) = insert (fst p) (set (dirs s))"
  by (simp add: mkdir_parent_def)

lemma dirs_write_file [simp]: "dirs (write_file p c s) = dirs s"
  by (simp add: write_file_def)

lemma dirs_unlink [simp]: "dirs (unlink p s) = dirs s"
  by (simp add: unlink_def)

lemma path_exists_mkdir_parent [simp]: "path_exists (mkdir_parent p s) q = path_exists s q"
  by (simp add: path_exists_def)

lemma map_of_replace_file:
  "map_of (files s) t = Some c \<Longrightarrow>
   map_of (files (replace_file t p s)) q =
     (if q = p then Some c else if q = t then None else map_of (files s) q)"
  by (simp add: replace_file_def)

lemma dirs_replace_file [simp]: "dirs (replace_file t p s) = dirs s"
  by (simp add: replace_file_def split: option.splits)

lemma map_of_cleanup:
  "map_of (files (cleanup e t s)) q =
     (if q = t \<and> \<not> unlink_fails e then None else map_of (files s) q)"
  by (auto simp: cleanup_def path_exists_def)

lemma dirs_cleanup [simp]: "dirs (cleanup e t s) = dirs s"
  by (simp add: cleanup_def)

lemma safe_write_json_steps_cases:
  obtains
    (at_mkdir) "fault e = Some MkdirFailed"
      "safe_write_json_steps e p doc s = (Inl MkdirFailed, [])"
  | (at_mkstemp) "fault e \<noteq> Some MkdirFailed"
      "fault e = Some MkstempFailed \<or> path_exists s (mkstemp_path e p)"
      "safe_write_json_steps e p doc s = (Inl MkstempFailed, [mkdir_parent p s])"
  | (at_write) "fault e = Some WriteFailed" "\<not> path_exists s (mkstemp_path e p)"
      "safe_write_json_steps e p doc s =
         (Inl WriteFailed,
          [mkdir_parent p s,
           write_file (mkstemp_path e p) Garbage (mkdir_parent p s),
           cleanup e (mkstemp_path e p)
             (write_file (mkstemp_path e p) Garbage (mkdir_parent p s))])"
  | (at_replace) "fault e = Some ReplaceFailed" "\<not> path_exists s (mkstemp_path e p)"
      "safe_write_json_steps e p doc s =
         (Inl ReplaceFailed,
          [mkdir_parent p s,
           write_file (mkstemp_path e p) Garbage (mkdir_parent p s),
           write_file (mkstemp_path e p) (Json doc)
             (write_file (mkstemp_path e p) Garbage (mkdir_parent p s)),
           cleanup e (mkstemp_path e p)
             (write_file (mkstemp_path e p) (Json doc)
               (write_file (mkstemp_path e p) Garbage (mkdir_parent p s)))])"
  | (success) "fault e = None" "\<not> path_exists s (mkstemp_path e p)"
      "safe_write_json_steps e p doc s =
         (Inr (),
          [mkdir_parent p s,
           write_file (mkstemp_path e p) Garbage (mkdir_parent p s),
           write_file (mkstemp_path e p) (Json doc)
             (write_file (mkstemp_path e p) Garbage (mkdir_parent p s)),
           replace_file (mkstemp_path e p) p
             (write_file (mkstemp_path e p) (Json doc)
               (write_file (mkstemp_path e p) Garbage (mkdir_parent p s))),
           cleanup e (mkstemp_path e p)
             (replace_file (mkstemp_path e p) p
               (write_file (mkstemp_path e p) (Json doc)
                 (write_file (mkstemp_path e p) Garbage (mkdir_parent p s))))])"
proof (cases "fault e")
  case None
  then show ?thesis
    using at_mkstemp [unfolded safe_write_json_steps_def Let_def]
          success [unfolded safe_write_json_steps_def Let_def]
    by (cases "path_exists s (mkstemp_path e p)") simp_all
next
  case (Some f)
  then show ?thesis
    using at_mkdir [unfolded safe_write_json_steps_def Let_def]
          at_mkstemp [unfolded safe_write_json_steps_def Let_def]
          at_write [unfolded safe_write_json_steps_def Let_def]
          at_replace [unfolded safe_write_json_steps_def Let_def]
    by (cases f; cases "path_exists s (mkstemp_path e p)") simp_all
qed

lemma safe_write_json_replace_failed:
  "fault e = Some ReplaceFailed \<Longrightarrow> \<not> path_exists s (mkstemp_path e p) \<Longrightarrow>
   safe_write_json e p doc s =
     (Inl ReplaceFailed, cleanup e (mkstemp_path e p)
             (write_file (mkstemp_path e p) (Json doc)
               (write_file (mkstemp_path e p) Garbage (mkdir_parent p s))))"
  by (simp add: safe_write_json_def safe_write_json_steps_def Let_def)

lemma safe_write_json_success:
  "fault e = None \<Longrightarrow> \<not> path_exists s (mkstemp_path e p) \<Longrightarrow>
   safe_write_json e p doc s =
     (Inr (), cleanup e (mkstemp_path e p)
             (replace_file (mkstemp_path e p) p
               (write_file (mkstemp_path e p) (Json doc)
                 (write_file (mkstemp_path e p) Garbage (mkdir_parent p s)))))"
  by (simp add: safe_write_json_def safe_write_json_steps_def Let_def)

lemma tmp_not_data [simp]:
  "mkstemp_path e (data_path base) \<noteq> data_path base"
  "mkstemp_path e (settings_path base) \<noteq> settings_path base"
  "data_path base \<noteq> mkstemp_path e (data_path base)"
  "settings_path base \<noteq> mkstemp_path e (settings_path base)"
  by (simp_all add: mkstemp_path_def data_path_def settings_path_def)

lemma safe_write_json_write_failed:
  "fault e = Some WriteFailed \<Longrightarrow> \<not> path_exists s (mkstemp_path e p) \<Longrightarrow>
   safe_write_json e p doc s =
     (Inl WriteFailed, cleanup e (mkstemp_path e p)
             (write_file (mkstemp_path e p) Garbage (mkdir_parent p s)))"
  by (simp add: safe_write_json_def safe_write_json_steps_def Let_def)

text \<open>
  C7 (as the code has it). \<^verbatim>\<open>safe_write_json\<close> creates the directory of the target unless
  that very step fails; the temporary file lies in the directory of the target, and no
  other path but it and the target is touched at any step; at every step the target holds
  either what it held before or the whole new document; the call succeeds exactly when no
  step fails, and then the target holds the new document and the temporary file is gone;
  when it fails, the exception reaches the caller and the target holds what it held
  before. After a failure that follows the creation of the temporary file, the
  \<^verbatim>\<open>finally\<close> block removes that file unless the removal itself fails: that second
  failure is swallowed and the temporary file stays.
\<close>

theorem safe_write_json_atomic:
  assumes tp: "mkstemp_path e p \<noteq> p"
      and st: "safe_write_json_steps e p doc s = (r, steps)"
  shows "safe_write_json e p doc s = (r, last (s # steps))
    \<and> (fault e \<noteq> Some MkdirFailed \<longrightarrow> fst p \<in> set (dirs (last (s # steps))))
    \<and> fst (mkstemp_path e p) = fst p
    \<and> (\<forall>x \<in> set steps. \<forall>q. q \<noteq> p \<and> q \<noteq> mkstemp_path e p \<longrightarrow>
           map_of (files x) q = map_of (files s) q)
    \<and> (\<forall>x \<in> set steps. map_of (files x) p = map_of (files s) p
           \<or> map_of (files x) p = Some (Json doc))
    \<and> (r = Inr () \<longleftrightarrow> fault e = None \<and> \<not> path_exists s (mkstemp_path e p))
    \<and> (r = Inr () \<longrightarrow>
           map_of (files (last (s # steps))) p = Some (Json doc)
           \<and> \<not> path_exists (last (s # steps)) (mkstemp_path e p))
    \<and> (\<forall>err. r = Inl err \<longrightarrow>
           map_of (files (last (s # steps))) p = map_of (files s) p
           \<and> (fault e = Some err \<or> (err = MkstempFailed \<and> path_exists s (mkstemp_path e p)))
           \<and> ((err = WriteFailed \<or> err = ReplaceFailed) \<longrightarrow>
                 path_exists (last (s # steps)) (mkstemp_path e p) = unlink_fails e))"
proof -
  have same_dir: "fst (mkstemp_path e p) = fst p"
    by (simp add: mkstemp_path_def)
  show ?thesis
  proof (cases e p doc s rule: safe_write_json_steps_cases)
    case at_mkdir
    with st same_dir show ?thesis
      by (auto simp: safe_write_json_def)
  next
    case at_mkstemp
    with st tp same_dir show ?thesis
      by (auto simp: safe_write_json_def)
  next
    case at_write
    with st tp same_dir show ?thesis
      by (auto simp: safe_write_json_def map_of_cleanup path_exists_def split: if_splits)
  next
    case at_replace
    with st tp same_dir show ?thesis
      by (auto simp: safe_write_json_def map_of_cleanup path_exists_def split: if_splits)
  next
    case success
    with st tp same_dir show ?thesis
      by (auto simp: safe_write_json_def map_of_cleanup map_of_replace_file path_exists_def split: if_splits)
  qed
qed

theorem safe_write_json_atomic_witness:
  "fst (safe_write_json (sample_env None False) (data_path ''/app'') (JInt 7) (sample_fs Garbage))
     = Inr ()
   \<and> map_of (files (snd (safe_write_json (sample_env None False) (data_path ''/app'') (JInt 7)
         (sample_fs Garbage)))) (data_path ''/app'') = Some (Json (JInt 7))
   \<and> \<not> path_exists (snd (safe_write_json (sample_env None False) (data_path ''/app'') (JInt 7)
         (sample_fs Garbage))) (mkstemp_path (sample_env None False) (data_path ''/app''))"
proof -
  let ?e = "sample_env None False" and ?p = "data_path ''/app''" and ?s = "sample_fs Garbage"
  have tp: "mkstemp_path ?e ?p \<noteq> ?p" by simp
  have st: "safe_write_json_steps ?e ?p (JInt 7) ?s =
              (fst (safe_write_json_steps ?e ?p (JInt 7) ?s),
               snd (safe_write_json_steps ?e ?p (JInt 7) ?s))"
    by simp
  have free: "\<not> path_exists ?s (mkstemp_path ?e ?p)"
    by (simp add: path_exists_def)
  show ?thesis
    using safe_write_json_atomic [OF tp st] free by simp
qed


text \<open>
  C7 as stated has the temporary file removed after every failure. When
  \<^verbatim>\<open>os.replace\<close> fails and the \<^verbatim>\<open>unlink\<close> of the \<^verbatim>\<open>finally\<close> block fails too, the
  \<^verbatim>\<open>except Exception: pass\<close> around it leaves the temporary file in the directory.
\<close>

theorem safe_write_json_leftover_counterexample:
  "fst (safe_write_json (sample_env (Some ReplaceFailed) True) (data_path ''/app'') (JInt 7)
         (sample_fs Garbage)) = Inl ReplaceFailed
   \<and> path_exists
        (snd (safe_write_json (sample_env (Some ReplaceFailed) True) (data_path ''/app'') (JInt 7)
           (sample_fs Garbage)))
        (mkstemp_path (sample_env (Some ReplaceFailed) True) (data_path ''/app''))"
  by (simp add: safe_write_json_replace_failed path_exists_def map_of_cleanup)



section \<open>Saving stamps the caller's document\<close>

lemma safe_write_json_written:
  assumes "mkstemp_path e p \<noteq> p"
      and "safe_write_json_steps e p doc s = (r, steps)"
  shows "safe_write_json e p doc s = (r, last (s # steps))
     \<and> (r = Inr () \<longrightarrow> map_of (files (last (s # steps))) p = Some (Json doc))
     \<and> (r = Inr () \<longleftrightarrow> fault e = None \<and> \<not> path_exists s (mkstemp_path e p))"
proof (cases e p doc s rule: safe_write_json_steps_cases)
  case success
  with assms show ?thesis
    by (auto simp: safe_write_json_def map_of_cleanup map_of_replace_file path_exists_def
          split: if_splits)
qed (use assms in \<open>auto simp: safe_write_json_def\<close>)

text \<open>
  C10. \<^verbatim>\<open>save_data\<close> and \<^verbatim>\<open>save_settings\<close> assign the clock reading to the key
  \<^verbatim>\<open>updated_at\<close> of the dictionary they are given, and to nothing else in it, whatever
  the writer then does: the dictionary the caller holds afterwards is the one it passed
  with that one assignment made, also when the write fails. The assignment comes first:
  what a successful write puts on disk is the stamped dictionary.
\<close>

theorem save_stamps_in_place:
  "fst (snd (save_data clk e base D s)) = AList.update ''updated_at'' (JStr (clk 0)) D
   \<and> map_of (fst (snd (save_data clk e base D s))) ''updated_at'' = Some (JStr (clk 0))
   \<and> (\<forall>k. k \<noteq> ''updated_at'' \<longrightarrow> map_of (fst (snd (save_data clk e base D s))) k = map_of D k)
   \<and> (fst (save_data clk e base D s) = Inr () \<longrightarrow>
         map_of (files (snd (snd (save_data clk e base D s)))) (data_path base)
           = Some (Json (JDict (AList.update ''updated_at'' (JStr (clk 0)) D))))
   \<and> fst (snd (save_settings clk e base D s)) = AList.update ''updated_at'' (JStr (clk 0)) D
   \<and> map_of (fst (snd (save_settings clk e base D s))) ''updated_at'' = Some (JStr (clk 0))
   \<and> (\<forall>k. k \<noteq> ''updated_at'' \<longrightarrow> map_of (fst (snd (save_settings clk e base D s))) k = map_of D k)
   \<and> (fst (save_settings clk e base D s) = Inr () \<longrightarrow>
         map_of (files (snd (snd (save_settings clk e base D s)))) (settings_path base)
           = Some (Json (JDict (AList.update ''updated_at'' (JStr (clk 0)) D))))"
proof -
  let ?D' = "AList.update ''updated_at'' (JStr (clk 0)) D"
  have w: "fst (safe_write_json e p (JDict ?D') s) = Inr () \<longrightarrow>
           map_of (files (snd (safe_write_json e p (JDict ?D') s))) p = Some (Json (JDict ?D'))"
    if "mkstemp_path e p \<noteq> p" for p
  proof -
    have st: "safe_write_json_steps e p (JDict ?D') s =
                (fst (safe_write_json_steps e p (JDict ?D') s),
                 snd (safe_write_json_steps e p (JDict ?D') s))"
      by simp
    from safe_write_json_written [OF that st] show ?thesis
      by simp
  qed
  have d: "save_data clk e base D s =
             (fst (safe_write_json e (data_path base) (JDict ?D') s), ?D',
              snd (safe_write_json e (data_path base) (JDict ?D') s))"
    by (simp add: save_data_def Let_def split_beta)
  have t: "save_settings clk e base D s =
             (fst (safe_write_json e (settings_path base) (JDict ?D') s), ?D',
              snd (safe_write_json e (settings_path base) (JDict ?D') s))"
    by (simp add: save_settings_def Let_def split_beta)
  show ?thesis
    unfolding d t using w [of "data_path base"] w [of "settings_path base"]
    by (simp add: update_conv')
qed

theorem save_stamps_in_place_witness:
  "fst (save_data (steady_clock ''2024-05-01 10:00:07'') (sample_env (Some WriteFailed) False)
          ''/app'' (sample_document ''2024-05-01 10:00:00'') (sample_fs Garbage)) = Inl WriteFailed
   \<and> fst (snd (save_data (steady_clock ''2024-05-01 10:00:07'') (sample_env (Some WriteFailed) False)
          ''/app'' (sample_document ''2024-05-01 10:00:00'') (sample_fs Garbage)))
       = sample_document ''2024-05-01 10:00:07''"
  using save_stamps_in_place [of "steady_clock ''2024-05-01 10:00:07''"
          "sample_env (Some WriteFailed) False" "''/app''"
          "sample_document ''2024-05-01 10:00:00''" "sample_fs Garbage"]
  by (simp add: save_data_def Let_def split_beta safe_write_json_write_failed path_exists_def
        sample_document_def steady_clock_def)


section \<open>Saving and loading again\<close>

lemma backfill_dict_id:
  "map_of m ''items'' \<noteq> None \<Longrightarrow> map_of m ''maintenance'' \<noteq> None \<Longrightarrow>
   map_of m ''current_mileage'' \<noteq> None \<Longrightarrow> backfill_dict m = m"
  by (auto simp: backfill_dict_def setdefault_def)

lemma backfill_all_id:
  "\<forall>v \<in> set vs. \<exists>m. v = JDict m \<and> map_of m ''items'' \<noteq> None
       \<and> map_of m ''maintenance'' \<noteq> None \<and> map_of m ''current_mileage'' \<noteq> None \<Longrightarrow>
   backfill_all vs = Inr vs"
proof (induction vs)
  case Nil
  then show ?case by simp
next
  case (Cons v vs)
  then obtain m where "v = JDict m" "backfill_dict m = m"
    by (auto simp: backfill_dict_id)
  with Cons show ?case
    by (simp add: backfill_vehicle_def)
qed

lemma load_schema1_id:
  assumes "map_of D ''updated_at'' = Some u" and "map_of D ''active_vehicle_id'' = Some a"
      and "map_of D ''vehicles'' = Some (JList vs)" and "vs \<noteq> []"
      and "\<forall>v \<in> set vs. \<exists>m. v = JDict m \<and> map_of m ''items'' \<noteq> None
             \<and> map_of m ''maintenance'' \<noteq> None \<and> map_of m ''current_mileage'' \<noteq> None"
  shows "load_schema1 clk D = Inr D"
  using assms backfill_all_id [OF assms(5)]
  by (simp add: load_schema1_def Let_def setdefault_def truthy_def backfill_vehicles_def update_triv)

text \<open>
  C1 (as the code has it). Let \<open>D\<close> be a document of schema 1 with an active vehicle
  identifier and a non-empty list of vehicles, each a dictionary with the keys
  \<^verbatim>\<open>id\<close>, \<^verbatim>\<open>items\<close>, \<^verbatim>\<open>maintenance\<close> and \<^verbatim>\<open>current_mileage\<close>. If \<^verbatim>\<open>save_data\<close>
  succeeds on it, a load of the file it wrote returns \<open>D\<close> with the key \<^verbatim>\<open>updated_at\<close>
  assigned: every other key has the value it has in \<open>D\<close>, and \<^verbatim>\<open>updated_at\<close> is the
  reading of the clock that the save took, whatever stamp \<open>D\<close> carried.
\<close>

theorem save_then_load:
  assumes "map_of D ''schema'' = Some (JInt 1)"
      and "map_of D ''active_vehicle_id'' = Some a"
      and "map_of D ''vehicles'' = Some (JList vs)" and "vs \<noteq> []"
      and "\<forall>v \<in> set vs. \<exists>m. v = JDict m \<and> map_of m ''id'' \<noteq> None \<and> map_of m ''items'' \<noteq> None
             \<and> map_of m ''maintenance'' \<noteq> None \<and> map_of m ''current_mileage'' \<noteq> None"
      and "save_data clk e base D s = (Inr (), D', s')"
  shows "load_data clk' base s' = AList.update ''updated_at'' (JStr (clk 0)) D
     \<and> (\<forall>k. k \<noteq> ''updated_at'' \<longrightarrow> map_of (load_data clk' base s') k = map_of D k)
     \<and> map_of (load_data clk' base s') ''updated_at'' = Some (JStr (clk 0))"
proof -
  let ?D1 = "AList.update ''updated_at'' (JStr (clk 0)) D"
  from assms(6) have w: "safe_write_json e (data_path base) (JDict ?D1) s = (Inr (), s')"
    by (simp add: save_data_def Let_def split: prod.splits)
  have st: "safe_write_json_steps e (data_path base) (JDict ?D1) s =
              (fst (safe_write_json_steps e (data_path base) (JDict ?D1) s),
               snd (safe_write_json_steps e (data_path base) (JDict ?D1) s))"
    by simp
  from safe_write_json_written [OF tmp_not_data(1) st] w
  have disk: "map_of (files s') (data_path base) = Some (Json (JDict ?D1))"
    by simp
  have "schema_is_1 ?D1"
    using assms(1) by (simp add: schema_is_1_def eq_int_def update_conv')
  moreover have "load_schema1 clk' ?D1 = Inr ?D1"
  proof (rule load_schema1_id)
    show "map_of ?D1 ''updated_at'' = Some (JStr (clk 0))" by (simp add: update_conv')
    show "map_of ?D1 ''active_vehicle_id'' = Some a" using assms(2) by (simp add: update_conv')
    show "map_of ?D1 ''vehicles'' = Some (JList vs)" using assms(3) by (simp add: update_conv')
    show "vs \<noteq> []" by (rule assms(4))
    show "\<forall>v \<in> set vs. \<exists>m. v = JDict m \<and> map_of m ''items'' \<noteq> None
             \<and> map_of m ''maintenance'' \<noteq> None \<and> map_of m ''current_mileage'' \<noteq> None"
      using assms(5) by blast
  qed
  ultimately have "load_data clk' base s' = ?D1"
    using disk by (simp add: load_data_def load_data_file_def)
  then show ?thesis
    by (simp add: update_conv')
qed

lemma save_data_to_empty:
  "save_data (steady_clock t) (sample_env None False) ''/app'' D \<lparr>dirs = [], files = []\<rparr>
     = (Inr (), AList.update ''updated_at'' (JStr t) D,
        \<lparr>dirs = [''/app''],
         files = [(data_path ''/app'', Json (JDict (AList.update ''updated_at'' (JStr t) D)))]\<rparr>)"
  by (simp add: save_data_def Let_def safe_write_json_success path_exists_def
        steady_clock_def cleanup_def replace_file_def write_file_def
        unlink_def mkdir_parent_def mkstemp_path_def data_path_def)

theorem save_then_load_witness:
  "load_data (steady_clock ''2024-05-01 10:00:09'') ''/app''
      \<lparr>dirs = [''/app''],
       files = [(data_path ''/app'', Json (JDict (sample_document ''2024-05-01 10:00:07'')))]\<rparr>
     = sample_document ''2024-05-01 10:00:07''"
  using save_then_load [of "sample_document ''2024-05-01 10:00:00''" "JStr ''v1''"
      "[JDict [(''id'', JStr ''v1''), (''name'', JStr ''Maxine''),
               (''current_mileage'', JInt 150000),
               (''items'', JList [JDict [(''name'', JStr ''Coilovers'')]]),
               (''maintenance'', JList [])]]"
      "steady_clock ''2024-05-01 10:00:07''" "sample_env None False" "''/app''"
      "\<lparr>dirs = [], files = []\<rparr>" "sample_document ''2024-05-01 10:00:07''"
      "\<lparr>dirs = [''/app''],
        files = [(data_path ''/app'', Json (JDict (sample_document ''2024-05-01 10:00:07'')))]\<rparr>"
      "steady_clock ''2024-05-01 10:00:09''"]
    save_data_to_empty [of "''2024-05-01 10:00:07''" "sample_document ''2024-05-01 10:00:00''"]
  by (simp add: sample_document_def steady_clock_def)

text \<open>
  C1 as stated has the stamp strictly increase. The clock has a resolution of one second:
  a document stamped at 10:00:00 and saved within that second is read back with the stamp
  it had. The claim also counts as well-formed a document without the key
  \<^verbatim>\<open>active_vehicle_id\<close>; the load adds that key, so that what is read back has a field
  that the saved document lacks.
\<close>

theorem save_then_load_same_second_counterexample:
  "map_of (sample_document ''2024-05-01 10:00:00'') ''updated_at''
     = Some (JStr ''2024-05-01 10:00:00'')
   \<and> fst (save_data (steady_clock ''2024-05-01 10:00:00'') (sample_env None False) ''/app''
            (sample_document ''2024-05-01 10:00:00'') \<lparr>dirs = [], files = []\<rparr>) = Inr ()
   \<and> map_of (load_data (steady_clock ''2024-05-01 10:00:00'') ''/app''
        (snd (snd (save_data (steady_clock ''2024-05-01 10:00:00'') (sample_env None False) ''/app''
            (sample_document ''2024-05-01 10:00:00'') \<lparr>dirs = [], files = []\<rparr>)))) ''updated_at''
     = Some (JStr ''2024-05-01 10:00:00'')
   \<and> \<not> (''2024-05-01 10:00:00'' < ''2024-05-01 10:00:00'')
   \<and> map_of (AList.delete ''active_vehicle_id'' (sample_document ''2024-05-01 10:00:00''))
          ''active_vehicle_id'' = None
   \<and> map_of (load_data (steady_clock ''2024-05-01 10:00:07'') ''/app''
        (snd (snd (save_data (steady_clock ''2024-05-01 10:00:07'') (sample_env None False) ''/app''
            (AList.delete ''active_vehicle_id'' (sample_document ''2024-05-01 10:00:00''))
            \<lparr>dirs = [], files = []\<rparr>)))) ''active_vehicle_id''
     = Some (JStr ''maxine-06-maxima'')"
  unfolding save_data_to_empty
  by (simp add: load_data_def load_data_file_def schema_is_1_def eq_int_def
        load_schema1_def Let_def setdefault_def truthy_def backfill_vehicles_def
        backfill_vehicle_def backfill_dict_def sample_document_def steady_clock_def)

section \<open>The UI scale of the loaded settings\<close>

lemma merge_fold_lookup:
  "map_of (foldl (\<lambda>acc k. case map_of raw k of Some v \<Rightarrow> AList.update k v acc | None \<Rightarrow> acc) acc ks) k
     = (if k \<in> set ks then (case map_of raw k of Some v \<Rightarrow> Some v | None \<Rightarrow> map_of acc k)
        else map_of acc k)"
proof (induction ks arbitrary: acc)
  case Nil
  then show ?case by simp
next
  case (Cons x ks)
  show ?case
    by (cases "map_of raw x") (auto simp: Cons.IH update_conv' split: option.splits)
qed

lemma map_of_merge_known:
  "map_of (merge_known raw d) k
     = (if k \<in> fst ` set d then (case map_of raw k of Some v \<Rightarrow> Some v | None \<Rightarrow> map_of d k)
        else map_of d k)"
  by (simp add: merge_known_def merge_fold_lookup)

lemma default_settings_keys:
  "fst ` set (default_settings t) = {''schema'', ''theme'', ''ui_scale'', ''font_family'',
      ''font_size'', ''autosave_ms'', ''car_mode'', ''updated_at''}"
  by (auto simp: default_settings_def)

lemma sanitize_ui_scale:
  assumes "map_of d ''theme'' = Some th"
  shows "\<exists>d'. sanitize_settings fos d = Inr d' \<and>
           map_of d' ''ui_scale'' =
             Some (JFloat (case map_of d ''ui_scale'' of
                             None \<Rightarrow> DEFAULT_UI_SCALE
                           | Some x \<Rightarrow> (case py_float fos x of
                                          None \<Rightarrow> DEFAULT_UI_SCALE
                                        | Some f \<Rightarrow> f)))"
  using assms by (simp add: sanitize_settings_def Let_def update_conv')

lemma bit_length_2: "bit_length 2 = 2"
  by code_simp

lemma float_of_int_minus_2: "float_of_int (- 2) = Some (Finite (- 2))"
  by (simp add: float_of_int_def Let_def bit_length_2)

text \<open>
  C8 (as the code has it). For a settings file of schema 1 the loaded UI scale is
  \<^verbatim>\<open>float(v)\<close> of the stored value \<open>v\<close> whenever \<^verbatim>\<open>float\<close> accepts \<open>v\<close>, of whatever
  sign; it is the configured default when the key is absent or when \<^verbatim>\<open>float(v)\<close>
  raises (always for \<^verbatim>\<open>None\<close>, a list or a dictionary; for a string when the
  interpreter cannot read a float out of it; for an integer beyond the range of a
  double). Every other content of the settings file gives the default settings.
\<close>

theorem load_settings_ui_scale:
  "(map_of (files s) (settings_path base) = Some (Json (JDict raw)) \<and> schema_is_1 raw \<longrightarrow>
      map_of (load_settings fos clk base s) ''ui_scale'' =
        Some (JFloat (case map_of raw ''ui_scale'' of
                        None \<Rightarrow> DEFAULT_UI_SCALE
                      | Some x \<Rightarrow> (case py_float fos x of
                                     None \<Rightarrow> DEFAULT_UI_SCALE
                                   | Some f \<Rightarrow> f))))
   \<and> ((\<forall>raw. map_of (files s) (settings_path base) = Some (Json (JDict raw)) \<longrightarrow> \<not> schema_is_1 raw)
        \<longrightarrow> load_settings fos clk base s = default_settings (clk 0))
   \<and> map_of (default_settings t) ''ui_scale'' = Some (JFloat DEFAULT_UI_SCALE)
   \<and> py_float fos (JFloat f) = Some f
   \<and> py_float fos (JInt i) = float_of_int i
   \<and> py_float fos (JBool b) = Some (Finite (if b then 1 else 0))
   \<and> py_float fos (JStr txt) = fos txt
   \<and> py_float fos JNull = None
   \<and> py_float fos (JList xs) = None
   \<and> py_float fos (JDict kvs) = None"
proof (intro conjI impI)
  assume a: "map_of (files s) (settings_path base) = Some (Json (JDict raw)) \<and> schema_is_1 raw"
  let ?d = "AList.update ''updated_at'' (JStr (clk 1)) (merge_known raw (default_settings (clk 0)))"
  have th: "map_of ?d ''theme'' =
              Some (case map_of raw ''theme'' of Some v \<Rightarrow> v | None \<Rightarrow> JStr DEFAULT_THEME)"
    by (simp add: update_conv' map_of_merge_known default_settings_keys)
       (simp add: default_settings_def split: option.splits)
  have sc: "map_of ?d ''ui_scale'' =
              Some (case map_of raw ''ui_scale'' of Some v \<Rightarrow> v | None \<Rightarrow> JFloat DEFAULT_UI_SCALE)"
    by (simp add: update_conv' map_of_merge_known default_settings_keys)
       (simp add: default_settings_def split: option.splits)
  have df: "py_float fos (JFloat DEFAULT_UI_SCALE) = Some DEFAULT_UI_SCALE"
    by (simp add: py_float_def)
  from sanitize_ui_scale [OF th, of fos] obtain d' where
    d': "sanitize_settings fos ?d = Inr d'"
      "map_of d' ''ui_scale'' =
             Some (JFloat (case map_of ?d ''ui_scale'' of
                             None \<Rightarrow> DEFAULT_UI_SCALE
                           | Some x \<Rightarrow> (case py_float fos x of
                                          None \<Rightarrow> DEFAULT_UI_SCALE
                                        | Some f \<Rightarrow> f)))"
    by blast
  from a d'(1) have "load_settings fos clk base s = d'"
    by (simp add: load_settings_def load_settings_file_def)
  with d'(2) sc df show "map_of (load_settings fos clk base s) ''ui_scale'' =
        Some (JFloat (case map_of raw ''ui_scale'' of
                        None \<Rightarrow> DEFAULT_UI_SCALE
                      | Some x \<Rightarrow> (case py_float fos x of
                                     None \<Rightarrow> DEFAULT_UI_SCALE
                                   | Some f \<Rightarrow> f)))"
    by (simp split: option.splits)
next
  assume "\<forall>raw. map_of (files s) (settings_path base) = Some (Json (JDict raw)) \<longrightarrow> \<not> schema_is_1 raw"
  then show "load_settings fos clk base s = default_settings (clk 0)"
    by (auto simp: load_settings_def load_settings_file_def
          split: option.splits content.splits json.splits)
qed (simp_all add: default_settings_def py_float_def)

theorem load_settings_ui_scale_witness:
  "map_of (load_settings Map.empty (steady_clock ''2024-05-01 10:00:00'') ''/app''
      (sample_settings_fs (Json (JDict [(''schema'', JInt 1), (''theme'', JStr ''blue''),
                                       (''ui_scale'', JNull)])))) ''ui_scale''
     = Some (JFloat DEFAULT_UI_SCALE)"
  using load_settings_ui_scale [of
      "sample_settings_fs (Json (JDict [(''schema'', JInt 1), (''theme'', JStr ''blue''),
                                       (''ui_scale'', JNull)]))"
      "''/app''" "[(''schema'', JInt 1), (''theme'', JStr ''blue''), (''ui_scale'', JNull)]"
      Map.empty "steady_clock ''2024-05-01 10:00:00''"]
  by (simp add: schema_is_1_def eq_int_def)

text \<open>
  C8 as stated resets every value that is not a positive float. The stored value
  \<^verbatim>\<open>-2\<close> is kept as the scale \<^verbatim>\<open>-2.0\<close>: the loader converts and never looks at the
  sign.
\<close>

theorem load_settings_negative_scale_counterexample:
  "map_of (load_settings Map.empty (steady_clock ''2024-05-01 10:00:00'') ''/app''
      (sample_settings_fs (Json (JDict [(''schema'', JInt 1), (''ui_scale'', JInt (- 2))]))))
      ''ui_scale''
     = Some (JFloat (Finite (- 2)))
   \<and> \<not> (0 < (- 2 :: real))
   \<and> JFloat (Finite (- 2)) \<noteq> JFloat DEFAULT_UI_SCALE"
proof -
  have "sanitize_settings Map.empty
          (AList.update ''updated_at'' (JStr ''2024-05-01 10:00:00'')
             (merge_known [(''schema'', JInt 1), (''ui_scale'', JInt (- 2))]
                (default_settings ''2024-05-01 10:00:00'')))
        = Inr [(''schema'', JInt 1), (''theme'', JStr ''dark''), (''ui_scale'', JFloat (Finite (- 2))),
               (''font_family'', JStr ''Segoe UI''), (''font_size'', JInt 13),
               (''autosave_ms'', JInt 20000), (''car_mode'', JBool False),
               (''updated_at'', JStr ''2024-05-01 10:00:00'')]"
    by (simp add: merge_known_def default_settings_def sanitize_settings_def Let_def
          py_float_def py_int_def truthy_def float_of_int_minus_2 DEFAULT_THEME_def)
  then show ?thesis
    by (simp add: load_settings_def load_settings_file_def schema_is_1_def eq_int_def
          steady_clock_def DEFAULT_UI_SCALE_def)
qed


section \<open>Reading and writing integers\<close>

lemma strip_empty_iff: "strip s = [] \<longleftrightarrow> (\<forall>c \<in> set s. is_space c)"
proof
  assume "strip s = []"
  then have all: "\<forall>c \<in> set (dropWhile is_space s). is_space c"
    by (simp add: strip_def)
  have "dropWhile is_space s = []"
  proof (rule ccontr)
    assume ne: "dropWhile is_space s \<noteq> []"
    then have "\<not> is_space (hd (dropWhile is_space s))" by (rule hd_dropWhile)
    moreover from ne have "hd (dropWhile is_space s) \<in> set (dropWhile is_space s)"
      by (rule hd_in_set)
    ultimately show False using all by blast
  qed
  then show "\<forall>c \<in> set s. is_space c" by simp
next
  assume "\<forall>c \<in> set s. is_space c"
  then have "dropWhile is_space s = []" by simp
  then show "strip s = []" by (simp only: strip_def rev.simps dropWhile.simps)
qed

lemma int_of_string_Some_not_blank: "int_of_string s = Some n \<Longrightarrow> int_strip s \<noteq> []"
  by (auto simp: int_of_string_def)

lemma parse_miles_Some_not_blank:
  assumes "parse_miles repr x = Some n"
  shows "strip (py_str repr x) \<noteq> []"
proof
  assume "strip (py_str repr x) = []"
  then have "\<forall>c \<in> set (remove_char CHR '','' (py_str repr x)). is_space c"
    by (simp add: strip_empty_iff remove_char_def)
  then have "normalize_int (py_str repr x) = []"
    by (simp add: normalize_int_def strip_empty_iff)
  then have "int_of_string (normalize_int (py_str repr x)) = None"
    by (simp add: int_of_string_def int_strip_def)
  with assms show False by (simp add: parse_miles_def)
qed

lemma digit_char_is_digit: "d < 10 \<Longrightarrow> is_digit (digit_char d)"
proof -
  assume "d < 10"
  then have "d \<in> {0,1,2,3,4,5,6,7,8,9}" by auto
  then show ?thesis by (auto simp: is_digit_def digit_char_def)
qed

lemma digits10_digits: "c \<in> set (digits10 n) \<Longrightarrow> is_digit c"
proof (induction n rule: digits10.induct)
  case (1 n)
  then show ?case
    by (cases "n < 10") (auto simp: digits10.simps [of n] digit_char_is_digit)
qed

lemma digits10_not_Nil: "digits10 n \<noteq> []"
  by (cases "n < 10") (simp_all add: digits10.simps [of n])

lemma is_digit_not_space: "is_digit c \<Longrightarrow> \<not> is_space c"
  by (auto simp: is_digit_def is_space_def)

lemma is_int_space_is_space: "is_int_space c \<Longrightarrow> is_space c"
  by (auto simp: is_int_space_def is_space_def)

lemma is_digit_not_sign: "is_digit c \<Longrightarrow> c \<noteq> CHR ''-'' \<and> c \<noteq> CHR ''+'' \<and> c \<noteq> CHR '','' \<and> c \<noteq> CHR ''_''"
  by (auto simp: is_digit_def)

lemma digits_ok_all_digits: "xs \<noteq> [] \<Longrightarrow> \<forall>c \<in> set xs. is_digit c \<Longrightarrow> digits_ok xs"
proof (induction xs rule: digits_ok.induct)
  case (3 c d cs)
  then show ?case by (auto dest: is_digit_not_sign)
qed simp_all

lemma trim_keeps:
  assumes "xs \<noteq> []" and "\<not> P (hd xs)" and "\<not> P (last xs)"
  shows "rev (dropWhile P (rev (dropWhile P xs))) = xs"
proof -
  from assms have a: "dropWhile P xs = xs"
    by (cases xs) simp_all
  from assms have "rev xs \<noteq> []" "\<not> P (hd (rev xs))"
    by (simp_all add: hd_rev)
  then have "dropWhile P (rev xs) = rev xs"
    by (cases "rev xs") simp_all
  with a show ?thesis by simp
qed

lemma strip_keeps:
  "xs \<noteq> [] \<Longrightarrow> \<not> is_space (hd xs) \<Longrightarrow> \<not> is_space (last xs) \<Longrightarrow> strip xs = xs"
  unfolding strip_def by (rule trim_keeps)

lemma int_strip_keeps:
  "xs \<noteq> [] \<Longrightarrow> \<not> is_space (hd xs) \<Longrightarrow> \<not> is_space (last xs) \<Longrightarrow> int_strip xs = xs"
  unfolding int_strip_def by (rule trim_keeps) (auto dest: is_int_space_is_space)

lemma int_of_string_digits:
  assumes "ds \<noteq> []" and "\<forall>c \<in> set ds. is_digit c"
  shows "int_of_string ds = Some (int (digits_value ds))"
    and "int_of_string (CHR ''-'' # ds) = Some (- int (digits_value ds))"
proof -
  from assms obtain c cs where cs: "ds = c # cs" by (cases ds) auto
  with assms have c: "is_digit c" by simp
  have ok: "digits_ok ds" by (rule digits_ok_all_digits [OF assms])
  have l: "is_digit (last ds)" using assms by simp
  have h: "is_digit (hd ds)" using assms by simp
  have minus: "\<not> is_space CHR ''-''" by (simp add: is_space_def)
  have nl: "\<not> is_space (last ds)" and nh: "\<not> is_space (hd ds)"
    using l h by (auto dest: is_digit_not_space)
  have "int_strip ds = ds"
    by (rule int_strip_keeps [OF assms(1) nh nl])
  then have st: "int_strip (c # cs) = c # cs" by (simp add: cs)
  from c have sg: "c \<noteq> CHR ''-''" "c \<noteq> CHR ''+''" by (auto dest: is_digit_not_sign)
  from ok have ok': "digits_ok (c # cs)" by (simp add: cs)
  show "int_of_string ds = Some (int (digits_value ds))"
    unfolding cs int_of_string_def st using sg ok' by (simp del: digits_ok.simps)
  have "int_strip (CHR ''-'' # ds) = CHR ''-'' # ds"
    by (rule int_strip_keeps) (use minus nl assms(1) in simp_all)
  then have st2: "int_strip (CHR ''-'' # c # cs) = CHR ''-'' # c # cs" by (simp add: cs)
  show "int_of_string (CHR ''-'' # ds) = Some (- int (digits_value ds))"
    unfolding cs int_of_string_def st2 using ok' by (simp del: digits_ok.simps)
qed

lemma int_of_string_str_int: "int_of_string (normalize_int (str_int i)) = Some i"
proof -
  let ?ds = "digits10 (nat \<bar>i\<bar>)"
  have ne: "?ds \<noteq> []" by (rule digits10_not_Nil)
  have dg: "\<forall>c \<in> set ?ds. is_digit c" by (simp add: digits10_digits)
  have nocomma: "filter (\<lambda>x. x \<noteq> CHR '','') ?ds = ?ds"
    using dg by (auto simp: filter_id_conv dest: is_digit_not_sign)
  have l: "is_digit (last ?ds)" using ne dg by simp
  have h: "is_digit (hd ?ds)" using ne dg by simp
  have minus: "\<not> is_space CHR ''-''" by (simp add: is_space_def)
  have nl: "\<not> is_space (last ?ds)" and nh: "\<not> is_space (hd ?ds)"
    using l h by (auto dest: is_digit_not_space)
  show ?thesis
  proof (cases "i < 0")
    case False
    then have s: "str_int i = ?ds" by (simp add: str_int_def)
    have "strip ?ds = ?ds"
      by (rule strip_keeps [OF ne nh nl])
    then have "normalize_int (str_int i) = ?ds"
      by (simp add: s normalize_int_def remove_char_def nocomma)
    with int_of_string_digits(1) [OF ne dg] False show ?thesis
      by (simp add: digits_value_digits10)
  next
    case True
    then have s: "str_int i = CHR ''-'' # ?ds" by (simp add: str_int_def)
    have "strip (CHR ''-'' # ?ds) = CHR ''-'' # ?ds"
      by (rule strip_keeps) (use minus nl ne in simp_all)
    then have "normalize_int (str_int i) = CHR ''-'' # ?ds"
      by (simp add: s normalize_int_def remove_char_def nocomma)
    with int_of_string_digits(2) [OF ne dg] True show ?thesis
      by (simp add: digits_value_digits10)
  qed
qed

lemma parse_miles_JInt: "parse_miles repr (JInt i) = Some i"
  by (simp add: parse_miles_def py_str_def int_of_string_str_int)

section \<open>The due mileage of a maintenance task\<close>

lemma fmt_examples:
  "fmt_commas 103000 = ''103,000''" "fmt_commas 500 = ''500''" "fmt_commas 1000 = ''1,000''"
  by (simp_all add: fmt_commas_def digits10.simps digit_char_def)

lemma strip_examples:
  "strip ''3000'' = ''3000''" "strip ''100000'' = ''100000''" "strip ''None'' = ''None''"
  "int_strip ''3000'' = ''3000''" "int_strip ''100000'' = ''100000''"
  "int_strip ''None'' = ''None''"
  by (simp_all add: strip_def is_space_def int_strip_def is_int_space_def)

lemma parse_examples:
  "int_of_string (normalize_int ''100000'') = Some 100000"
  "int_of_string (normalize_int ''3000'') = Some 3000"
  "int_of_string (normalize_int ''None'') = None"
  by (simp_all add: normalize_int_def remove_char_def int_of_string_def strip_examples
        is_digit_def digits_value_def digit_val_def)

lemma maintenance_due_parsed:
  assumes "parse_miles repr (get_or m ''last_miles'' (JStr [])) = Some l"
      and "parse_miles repr (get_or m ''interval_miles'' (JStr [])) = Some i"
  shows "maintenance_due repr cur m =
           (fmt_commas (l + i),
            case int_instance cur of
              None \<Rightarrow> []
            | Some c \<Rightarrow> (if l + i - c \<ge> 0 then fmt_commas (l + i - c)
                         else ''OVERDUE '' @ fmt_commas \<bar>l + i - c\<bar>))"
  using assms parse_miles_Some_not_blank [OF assms(1)] parse_miles_Some_not_blank [OF assms(2)]
  by (simp add: maintenance_due_def Let_def split: option.splits)

lemma maintenance_due_unparsed:
  assumes "parse_miles repr (get_or m ''last_miles'' (JStr [])) = None
         \<or> parse_miles repr (get_or m ''interval_miles'' (JStr [])) = None"
  shows "maintenance_due repr cur m = ([], [])"
  using assms by (auto simp: maintenance_due_def Let_def split: option.splits)

text \<open>
  C5. The columns that the maintenance list shows for a task. When the last-serviced
  mileage or the interval is absent (no key, an empty or blank string, \<^verbatim>\<open>None\<close>) or is
  not read by \<^verbatim>\<open>int\<close> after the commas are removed, both columns are empty. Otherwise
  the due column is the sum of the two, and the remaining column is the due mileage minus
  the current mileage when that is a known integer: the plain amount when it is not
  negative, and \<^verbatim>\<open>OVERDUE\<close> followed by the absolute value when it is; it is empty when
  the current mileage is \<^verbatim>\<open>None\<close>, the due column being shown all the same. Numbers are
  shown with thousands separators. The last lines are the examples of the specification,
  with the mileages stored as integers and as strings.
\<close>

theorem maintenance_due_arithmetic:
  "(parse_miles repr (get_or m ''last_miles'' (JStr [])) = None
      \<or> parse_miles repr (get_or m ''interval_miles'' (JStr [])) = None
     \<longrightarrow> maintenance_due repr cur m = ([], []))
   \<and> (parse_miles repr (get_or m ''last_miles'' (JStr [])) = Some l
      \<and> parse_miles repr (get_or m ''interval_miles'' (JStr [])) = Some i
     \<longrightarrow> fst (maintenance_due repr cur m) = fmt_commas (l + i)
       \<and> (\<forall>c. cur = JInt c \<longrightarrow>
             snd (maintenance_due repr cur m) =
               (if l + i - c \<ge> 0 then fmt_commas (l + i - c)
                else ''OVERDUE '' @ fmt_commas \<bar>l + i - c\<bar>))
       \<and> (cur = JNull \<longrightarrow> snd (maintenance_due repr cur m) = []))
   \<and> parse_miles repr (JStr []) = None
   \<and> parse_miles repr JNull = None
   \<and> parse_miles repr (JInt n) = Some n
   \<and> parse_miles repr (JStr txt) = int_of_string (normalize_int txt)
   \<and> maintenance_due repr (JInt 102500)
        [(''last_miles'', JInt 100000), (''interval_miles'', JInt 3000)] = (''103,000'', ''500'')
   \<and> maintenance_due repr (JInt 104000)
        [(''last_miles'', JInt 100000), (''interval_miles'', JInt 3000)]
        = (''103,000'', ''OVERDUE 1,000'')
   \<and> maintenance_due repr (JInt 102500)
        [(''last_miles'', JStr ''100000''), (''interval_miles'', JStr ''3000'')] = (''103,000'', ''500'')
   \<and> maintenance_due repr (JInt 104000)
        [(''last_miles'', JStr ''100000''), (''interval_miles'', JStr ''3000'')]
        = (''103,000'', ''OVERDUE 1,000'')
   \<and> maintenance_due repr (JInt 100000) [(''interval_miles'', JStr ''3000'')] = ([], [])"
proof (intro conjI impI allI)
  assume "parse_miles repr (get_or m ''last_miles'' (JStr [])) = None
      \<or> parse_miles repr (get_or m ''interval_miles'' (JStr [])) = None"
  then show "maintenance_due repr cur m = ([], [])" by (rule maintenance_due_unparsed)
next
  assume a: "parse_miles repr (get_or m ''last_miles'' (JStr [])) = Some l
      \<and> parse_miles repr (get_or m ''interval_miles'' (JStr [])) = Some i"
  then show "fst (maintenance_due repr cur m) = fmt_commas (l + i)"
    by (simp add: maintenance_due_parsed)
  show "cur = JNull \<Longrightarrow> snd (maintenance_due repr cur m) = []"
    using a by (simp add: maintenance_due_parsed int_instance_def)
  fix c
  show "cur = JInt c \<Longrightarrow> snd (maintenance_due repr cur m) =
               (if l + i - c \<ge> 0 then fmt_commas (l + i - c)
                else ''OVERDUE '' @ fmt_commas \<bar>l + i - c\<bar>)"
    using a by (simp add: maintenance_due_parsed int_instance_def)
next
  show "parse_miles repr (JStr []) = None"
    by (simp add: parse_miles_def py_str_def normalize_int_def remove_char_def strip_def
          int_of_string_def int_strip_def)
  show "parse_miles repr JNull = None"
    by (simp add: parse_miles_def py_str_def parse_examples)
  show "parse_miles repr (JInt n) = Some n" by (rule parse_miles_JInt)
  show "parse_miles repr (JStr txt) = int_of_string (normalize_int txt)"
    by (simp add: parse_miles_def py_str_def)
  have p: "parse_miles repr (JStr ''100000'') = Some 100000"
          "parse_miles repr (JStr ''3000'') = Some 3000"
    by (simp_all add: parse_miles_def py_str_def parse_examples)
  show "maintenance_due repr (JInt 102500)
        [(''last_miles'', JInt 100000), (''interval_miles'', JInt 3000)] = (''103,000'', ''500'')"
    by (subst maintenance_due_parsed [where l = 100000 and i = 3000])
       (simp_all add: get_or_def parse_miles_JInt int_instance_def fmt_examples)
  show "maintenance_due repr (JInt 104000)
        [(''last_miles'', JInt 100000), (''interval_miles'', JInt 3000)]
        = (''103,000'', ''OVERDUE 1,000'')"
    by (subst maintenance_due_parsed [where l = 100000 and i = 3000])
       (simp_all add: get_or_def parse_miles_JInt int_instance_def fmt_examples)
  show "maintenance_due repr (JInt 102500)
        [(''last_miles'', JStr ''100000''), (''interval_miles'', JStr ''3000'')] = (''103,000'', ''500'')"
    by (subst maintenance_due_parsed [where l = 100000 and i = 3000])
       (simp_all add: get_or_def p int_instance_def fmt_examples)
  show "maintenance_due repr (JInt 104000)
        [(''last_miles'', JStr ''100000''), (''interval_miles'', JStr ''3000'')]
        = (''103,000'', ''OVERDUE 1,000'')"
    by (subst maintenance_due_parsed [where l = 100000 and i = 3000])
       (simp_all add: get_or_def p int_instance_def fmt_examples)
  show "maintenance_due repr (JInt 100000) [(''interval_miles'', JStr ''3000'')] = ([], [])"
    by (simp add: maintenance_due_def Let_def get_or_def py_str_def strip_def)
qed

theorem maintenance_due_arithmetic_witness:
  "maintenance_due sample_repr (JInt 2900)
      [(''last_miles'', JStr ''0''), (''interval_miles'', JStr '' 3,000 '')]
     = (fmt_commas 3000, fmt_commas 100)
   \<and> maintenance_due sample_repr JNull
      [(''last_miles'', JStr ''0''), (''interval_miles'', JStr '' 3,000 '')]
     = (fmt_commas 3000, [])
   \<and> maintenance_due sample_repr (JInt 2900)
      [(''last_miles'', JStr ''soon''), (''interval_miles'', JStr '' 3,000 '')]
     = ([], [])"
proof -
  have s: "strip '' 3000 '' = ''3000''" "strip ''3000'' = ''3000''" "strip ''0'' = ''0''"
          "strip ''soon'' = ''soon''" "int_strip ''3000'' = ''3000''" "int_strip ''0'' = ''0''"
          "int_strip ''soon'' = ''soon''"
    by (simp_all add: strip_def is_space_def int_strip_def is_int_space_def)
  have q: "int_of_string (normalize_int ''0'') = Some 0"
          "int_of_string (normalize_int '' 3,000 '') = Some 3000"
          "int_of_string (normalize_int ''soon'') = None"
    by (simp_all add: normalize_int_def remove_char_def
          int_of_string_def s is_digit_def digits_value_def digit_val_def)
  then have p: "parse_miles sample_repr (JStr ''0'') = Some 0"
          "parse_miles sample_repr (JStr '' 3,000 '') = Some 3000"
          "parse_miles sample_repr (JStr ''soon'') = None"
    by (simp_all add: parse_miles_def py_str_def)
  show ?thesis
    using maintenance_due_arithmetic [of sample_repr
            "[(''last_miles'', JStr ''0''), (''interval_miles'', JStr '' 3,000 '')]"
            "JInt 2900" 0 3000]
          maintenance_due_arithmetic [of sample_repr
            "[(''last_miles'', JStr ''0''), (''interval_miles'', JStr '' 3,000 '')]"
            "JNull" 0 3000]
          maintenance_due_arithmetic [of sample_repr
            "[(''last_miles'', JStr ''soon''), (''interval_miles'', JStr '' 3,000 '')]"
            "JInt 2900" 0 3000]
    by (simp add: get_or_def p q prod_eq_iff)
qed



section \<open>Marking a maintenance task done\<close>

lemma map_of_stamp_task:
  "map_of (stamp_task today miles now m) k =
     (if k = ''updated_at'' then Some (JStr now)
      else if k = ''last_miles'' then Some (JStr miles)
      else if k = ''last_date'' then Some (JStr today)
      else map_of m k)"
  by (simp add: stamp_task_def update_conv')

lemma update_status_lookup:
  assumes "map_of v ''maintenance'' = Some x"
  shows "map_of (snd (update_status v)) k =
           (if k = ''items'' then Some (get_or v ''items'' (JList [])) else map_of v k)"
  using assms
  by (auto simp: update_status_def Let_def get_or_def map_of_setdefault setdefault_present
        split: option.splits)

lemma update_status_result:
  assumes "map_of v ''maintenance'' = Some (JList ms)"
  shows "fst (update_status v) = (if sized (get_or v ''items'' (JList [])) then None else Some TypeError)"
  using assms
  by (auto simp: update_status_def Let_def get_or_def map_of_setdefault setdefault_present sized_def
        split: option.splits)

lemma update_status_again:
  assumes "update_status v = (None, v')"
  shows "update_status v' = (None, v')"
proof -
  let ?v1 = "setdefault ''items'' (JList []) v"
  let ?v2 = "setdefault ''maintenance'' (JList []) ?v1"
  from assms have s1: "sized (get_or ?v1 ''items'' JNull)"
    and s2: "sized (get_or ?v2 ''maintenance'' JNull)" and v': "v' = ?v2"
    by (auto simp: update_status_def Let_def split: if_splits)
  have i: "map_of ?v2 ''items'' \<noteq> None" and m: "map_of ?v2 ''maintenance'' \<noteq> None"
    by (simp_all add: map_of_setdefault split: option.splits)
  then have e1: "setdefault ''items'' (JList []) ?v2 = ?v2"
    and e2: "setdefault ''maintenance'' (JList []) ?v2 = ?v2"
    by (auto simp: setdefault_def)
  have "get_or ?v2 ''items'' JNull = get_or ?v1 ''items'' JNull"
    by (simp add: get_or_def map_of_setdefault)
  with s1 s2 have "update_status ?v2 = (None, ?v2)"
    by (simp add: update_status_def Let_def e1 e2)
  then show ?thesis by (simp add: v')
qed


lemma finish_mark_done_cases:
  assumes mt: "map_of (vehicle a) ''maintenance'' = Some (JList ms)"
  shows "vehicle (fst (snd (finish_mark_done clk e base a s))) = snd (update_status (vehicle a))
    \<and> (\<not> sized (get_or (vehicle a) ''items'' (JList [])) \<longrightarrow>
          fst (finish_mark_done clk e base a s) = Raised TypeError
          \<and> snd (snd (finish_mark_done clk e base a s)) = s)
    \<and> (sized (get_or (vehicle a) ''items'' (JList [])) \<longrightarrow>
          (fst (finish_mark_done clk e base a s) = Completed \<and> list_all is_dict ms)
          \<or> (fst (finish_mark_done clk e base a s) = Raised AttributeError
                \<and> \<not> list_all is_dict ms)
          \<or> (\<exists>err. fst (finish_mark_done clk e base a s) = Raised (OSError err)))"
proof -
  obtain x v' where u: "update_status (vehicle a) = (x, v')"
    by (cases "update_status (vehicle a)") auto
  from update_status_result [OF mt] u
  have x: "x = (if sized (get_or (vehicle a) ''items'' (JList [])) then None else Some TypeError)"
    by simp
  let ?a1 = "a\<lparr>vehicle := v', dirty := True\<rparr>"
  have md: "mark_dirty a = (x, ?a1)"
    by (simp add: mark_dirty_def u)
  show ?thesis
  proof (cases "sized (get_or (vehicle a) ''items'' (JList []))")
    case False
    with x have "x = Some TypeError" by simp
    with md have "finish_mark_done clk e base a s = (Raised TypeError, ?a1, s)"
      by (simp add: finish_mark_done_def)
    with False u show ?thesis by simp
  next
    case True
    with x have xn: "x = None" by simp
    with u have again: "update_status v' = (None, v')"
      by (simp add: update_status_again)
    from update_status_lookup [OF mt, of "''maintenance''"] u
    have mt': "map_of v' ''maintenance'' = Some (JList ms)"
      by (simp add: mt)
    obtain r d s' where sd: "save_data clk e base (app_data ?a1) s = (r, d, s')"
      by (cases "save_data clk e base (app_data ?a1) s") auto
    show ?thesis
    proof (cases r)
      case (Inl err)
      with sd have "save_app clk e base False ?a1 s = (Some (OSError err), ?a1\<lparr>data := d\<rparr>, s')"
        by (simp add: save_app_def)
      with md xn have "finish_mark_done clk e base a s = (Raised (OSError err), ?a1\<lparr>data := d\<rparr>, s')"
        by (simp add: finish_mark_done_def)
      with True u show ?thesis by simp
    next
      case (Inr un)
      let ?a2 = "?a1\<lparr>data := d, vehicle := v', dirty := False, last_saved_at := Some (clk 1)\<rparr>"
      from Inr sd again have sv: "save_app clk e base False ?a1 s = (None, ?a2, s')"
        by (simp add: save_app_def)
      have sdf: "setdefault ''maintenance'' (JList []) v' = v'"
        using mt' by (simp add: setdefault_def)
      show ?thesis
      proof (cases "list_all is_dict ms")
        case all: True
        then have "refresh_maintenance_list ?a2 = (None, ?a2\<lparr>vehicle := v'\<rparr>)"
          by (simp add: refresh_maintenance_list_def Let_def sdf get_or_def mt' walk_tasks_def again)
        with md xn sv have "finish_mark_done clk e base a s = (Completed, ?a2\<lparr>vehicle := v'\<rparr>, s')"
          by (simp add: finish_mark_done_def)
        with True u all show ?thesis by simp
      next
        case some: False
        then have "refresh_maintenance_list ?a2 = (Some AttributeError, ?a2\<lparr>vehicle := v'\<rparr>)"
          by (simp add: refresh_maintenance_list_def Let_def sdf get_or_def mt' walk_tasks_def)
        with md xn sv have "finish_mark_done clk e base a s
                              = (Raised AttributeError, ?a2\<lparr>vehicle := v'\<rparr>, s')"
          by (simp add: finish_mark_done_def)
        with True u some show ?thesis by simp
      qed
    qed
  qed
qed

lemma mark_done_unknown_mileage:
  assumes "get_or (vehicle a) ''current_mileage'' JNull = JNull"
  shows "snd (mark_maintenance_done repr today clk e base sel a s) = (a, s)"
    and "int_of_string iid = Some idx \<Longrightarrow>
         mark_maintenance_done repr today clk e base [iid] a s =
           (ShowInfo ''Set current mileage'' ''Set current mileage at the top first.'', a, s)"
  using assms
  by (auto simp: mark_maintenance_done_def Let_def split: list.splits option.splits)

lemma mark_done_known_mileage:
  assumes "map_of (vehicle a) ''current_mileage'' = Some (JInt c)"
      and "map_of (vehicle a) ''maintenance'' = Some (JList ms)"
      and "int_of_string iid = Some (int n)" and "n < length ms" and "ms ! n = JDict m"
  shows "mark_maintenance_done repr today clk e base [iid] a s =
          finish_mark_done (\<lambda>k. clk (Suc k)) e base
            (a\<lparr>vehicle := AList.update ''maintenance''
                   (JList (ms[n := JDict (stamp_task today (str_int c) (clk 0) m)]))
                   (vehicle a)\<rparr>) s"
  using assms
  by (simp add: mark_maintenance_done_def Let_def get_or_def setdefault_def py_pos_def py_str_def)

lemma list_all_is_dict_update:
  assumes "n < length ms" and "ms ! n = JDict m"
  shows "list_all is_dict (ms[n := JDict m']) = list_all is_dict ms"
proof -
  have "is_dict ((ms[n := JDict m']) ! i) = is_dict (ms ! i)" if "i < length ms" for i
    using assms that by (cases "i = n") (simp_all add: is_dict_def)
  then show ?thesis
    by (simp add: list_all_length)
qed


text \<open>
  C6. With the current mileage of the vehicle absent (no key, or \<^verbatim>\<open>None\<close>),
  \<^verbatim>\<open>mark_maintenance_done\<close> changes nothing, whatever is selected: the window and the
  files are what they were; with one row selected it shows the message asking to set
  the current mileage first. With a known integer mileage \<open>c\<close> and the row \<open>n\<close> of the
  maintenance list selected, the task at \<open>n\<close> gets today's date as \<^verbatim>\<open>last_date\<close>, the
  decimal text of \<open>c\<close> as \<^verbatim>\<open>last_miles\<close> (which \<^verbatim>\<open>int\<close> reads back as \<open>c\<close>) and the
  clock reading as \<^verbatim>\<open>updated_at\<close>; its other keys and the other tasks are unchanged,
  and so is every key of the vehicle but \<^verbatim>\<open>maintenance\<close> and \<^verbatim>\<open>items\<close>: the redrawing
  of the status line gives a vehicle without \<^verbatim>\<open>items\<close> an empty list. The task is
  stamped in memory however the rest of the method ends. It ends with \<^verbatim>\<open>TypeError\<close>
  before any save when the items of the vehicle have no length; otherwise it saves, and
  either the exception of the writer reaches the caller, or the list is redrawn, which
  raises \<^verbatim>\<open>AttributeError\<close> when some task is not a dictionary and completes when all
  are.
\<close>

theorem mark_maintenance_done_precondition:
  "(get_or (vehicle a) ''current_mileage'' JNull = JNull \<longrightarrow>
      snd (mark_maintenance_done repr today clk e base sel a s) = (a, s))
   \<and> (get_or (vehicle a) ''current_mileage'' JNull = JNull \<and> int_of_string iid = Some idx \<longrightarrow>
      mark_maintenance_done repr today clk e base [iid] a s =
        (ShowInfo ''Set current mileage'' ''Set current mileage at the top first.'', a, s))
   \<and> (map_of (vehicle a) ''current_mileage'' = Some (JInt c)
      \<and> map_of (vehicle a) ''maintenance'' = Some (JList ms)
      \<and> int_of_string iid = Some (int n) \<and> n < length ms \<and> ms ! n = JDict m \<longrightarrow>
        map_of (vehicle (fst (snd (mark_maintenance_done repr today clk e base [iid] a s))))
              ''maintenance''
            = Some (JList (ms[n := JDict (stamp_task today (str_int c) (clk 0) m)]))
        \<and> map_of (vehicle (fst (snd (mark_maintenance_done repr today clk e base [iid] a s))))
              ''items''
            = Some (get_or (vehicle a) ''items'' (JList []))
        \<and> (\<forall>k. k \<noteq> ''maintenance'' \<and> k \<noteq> ''items'' \<longrightarrow>
              map_of (vehicle (fst (snd (mark_maintenance_done repr today clk e base [iid] a s)))) k
                = map_of (vehicle a) k)
        \<and> (\<not> sized (get_or (vehicle a) ''items'' (JList [])) \<longrightarrow>
              fst (mark_maintenance_done repr today clk e base [iid] a s) = Raised TypeError
              \<and> snd (snd (mark_maintenance_done repr today clk e base [iid] a s)) = s)
        \<and> (sized (get_or (vehicle a) ''items'' (JList [])) \<and> list_all is_dict ms \<longrightarrow>
              fst (mark_maintenance_done repr today clk e base [iid] a s) = Completed
              \<or> (\<exists>err. fst (mark_maintenance_done repr today clk e base [iid] a s)
                          = Raised (OSError err)))
        \<and> (sized (get_or (vehicle a) ''items'' (JList [])) \<and> \<not> list_all is_dict ms \<longrightarrow>
              fst (mark_maintenance_done repr today clk e base [iid] a s) = Raised AttributeError
              \<or> (\<exists>err. fst (mark_maintenance_done repr today clk e base [iid] a s)
                          = Raised (OSError err))))
   \<and> map_of (stamp_task today (str_int c) now m) ''last_date'' = Some (JStr today)
   \<and> map_of (stamp_task today (str_int c) now m) ''last_miles'' = Some (JStr (str_int c))
   \<and> map_of (stamp_task today (str_int c) now m) ''updated_at'' = Some (JStr now)
   \<and> (\<forall>k. k \<noteq> ''last_date'' \<and> k \<noteq> ''last_miles'' \<and> k \<noteq> ''updated_at'' \<longrightarrow>
         map_of (stamp_task today (str_int c) now m) k = map_of m k)
   \<and> int_of_string (normalize_int (str_int c)) = Some c"
proof -
  have known: "map_of (vehicle (fst (snd (mark_maintenance_done repr today clk e base [iid] a s))))
              ''maintenance''
            = Some (JList (ms[n := JDict (stamp_task today (str_int c) (clk 0) m)]))
        \<and> map_of (vehicle (fst (snd (mark_maintenance_done repr today clk e base [iid] a s))))
              ''items''
            = Some (get_or (vehicle a) ''items'' (JList []))
        \<and> (\<forall>k. k \<noteq> ''maintenance'' \<and> k \<noteq> ''items'' \<longrightarrow>
              map_of (vehicle (fst (snd (mark_maintenance_done repr today clk e base [iid] a s)))) k
                = map_of (vehicle a) k)
        \<and> (\<not> sized (get_or (vehicle a) ''items'' (JList [])) \<longrightarrow>
              fst (mark_maintenance_done repr today clk e base [iid] a s) = Raised TypeError
              \<and> snd (snd (mark_maintenance_done repr today clk e base [iid] a s)) = s)
        \<and> (sized (get_or (vehicle a) ''items'' (JList [])) \<and> list_all is_dict ms \<longrightarrow>
              fst (mark_maintenance_done repr today clk e base [iid] a s) = Completed
              \<or> (\<exists>err. fst (mark_maintenance_done repr today clk e base [iid] a s)
                          = Raised (OSError err)))
        \<and> (sized (get_or (vehicle a) ''items'' (JList [])) \<and> \<not> list_all is_dict ms \<longrightarrow>
              fst (mark_maintenance_done repr today clk e base [iid] a s) = Raised AttributeError
              \<or> (\<exists>err. fst (mark_maintenance_done repr today clk e base [iid] a s)
                          = Raised (OSError err)))"
    if h: "map_of (vehicle a) ''current_mileage'' = Some (JInt c)
      \<and> map_of (vehicle a) ''maintenance'' = Some (JList ms)
      \<and> int_of_string iid = Some (int n) \<and> n < length ms \<and> ms ! n = JDict m"
  proof -
    let ?ms' = "ms[n := JDict (stamp_task today (str_int c) (clk 0) m)]"
    let ?v2 = "AList.update ''maintenance'' (JList ?ms') (vehicle a)"
    let ?a2 = "a\<lparr>vehicle := ?v2\<rparr>"
    let ?R = "mark_maintenance_done repr today clk e base [iid] a s"
    have eq: "?R = finish_mark_done (\<lambda>k. clk (Suc k)) e base ?a2 s"
      using h by (intro mark_done_known_mileage) simp_all
    have mt: "map_of (vehicle ?a2) ''maintenance'' = Some (JList ?ms')"
      by (simp add: update_conv')
    have it: "get_or (vehicle ?a2) ''items'' (JList []) = get_or (vehicle a) ''items'' (JList [])"
      by (simp add: get_or_def update_conv')
    have ad: "list_all is_dict ?ms' = list_all is_dict ms"
      using h by (intro list_all_is_dict_update) simp_all
    note fin = finish_mark_done_cases [OF mt, of "\<lambda>k. clk (Suc k)" e base s, folded eq,
        unfolded it ad]
    from fin have v: "vehicle (fst (snd ?R)) = snd (update_status ?v2)"
      by simp
    have look: "map_of (vehicle (fst (snd ?R))) k =
                  (if k = ''items'' then Some (get_or (vehicle a) ''items'' (JList []))
                   else if k = ''maintenance'' then Some (JList ?ms') else map_of (vehicle a) k)" for k
      using update_status_lookup [of ?v2 "JList ?ms'" k] it
      by (simp add: v update_conv')
    show ?thesis
      using fin [THEN conjunct2] by (auto simp: look)
  qed
  have unknown1: "snd (mark_maintenance_done repr today clk e base sel a s) = (a, s)"
    if "get_or (vehicle a) ''current_mileage'' JNull = JNull"
    using that by (rule mark_done_unknown_mileage(1))
  have unknown2: "mark_maintenance_done repr today clk e base [iid] a s =
        (ShowInfo ''Set current mileage'' ''Set current mileage at the top first.'', a, s)"
    if "get_or (vehicle a) ''current_mileage'' JNull = JNull \<and> int_of_string iid = Some idx"
    using that by (simp add: mark_done_unknown_mileage(2))
  show ?thesis
    using known unknown1 unknown2
    by (simp add: map_of_stamp_task int_of_string_str_int)
qed


theorem mark_maintenance_done_precondition_witness:
  "mark_maintenance_done sample_repr ''2024-05-02'' (steady_clock ''2024-05-02 09:30:00'')
      (sample_env None False) ''/app'' [''0''] (sample_app JNull) (sample_fs Garbage)
     = (ShowInfo ''Set current mileage'' ''Set current mileage at the top first.'',
        sample_app JNull, sample_fs Garbage)
   \<and> map_of (vehicle (fst (snd (mark_maintenance_done sample_repr ''2024-05-02''
        (steady_clock ''2024-05-02 09:30:00'') (sample_env None False) ''/app'' [''0'']
        (sample_app (JInt 102500)) (sample_fs Garbage))))) ''maintenance''
     = Some (JList [JDict [(''task'', JStr ''Oil change''),
                           (''last_miles'', JStr ''102500''),
                           (''interval_miles'', JStr ''3000''),
                           (''last_date'', JStr ''2024-05-02''),
                           (''updated_at'', JStr ''2024-05-02 09:30:00'')]])
   \<and> (fst (mark_maintenance_done sample_repr ''2024-05-02''
        (steady_clock ''2024-05-02 09:30:00'') (sample_env None False) ''/app'' [''0'']
        (sample_app (JInt 102500)) (sample_fs Garbage)) = Completed
      \<or> (\<exists>err. fst (mark_maintenance_done sample_repr ''2024-05-02''
        (steady_clock ''2024-05-02 09:30:00'') (sample_env None False) ''/app'' [''0'']
        (sample_app (JInt 102500)) (sample_fs Garbage)) = Raised (OSError err)))"
proof -
  have z: "int_of_string ''0'' = Some (int 0)"
    by (simp add: int_of_string_def int_strip_def is_int_space_def is_digit_def digits_value_def
          digit_val_def)
  have t: "str_int 102500 = ''102500''"
    by (simp add: str_int_def digits10.simps digit_char_def)
  show ?thesis
    using mark_maintenance_done_precondition [of "sample_app JNull" sample_repr "''2024-05-02''"
            "steady_clock ''2024-05-02 09:30:00''" "sample_env None False" "''/app''" "[''0'']"
            "sample_fs Garbage" "''0''" 0 0 "[]" 0 "[]" "''''"]
          mark_maintenance_done_precondition [of "sample_app (JInt 102500)" sample_repr
            "''2024-05-02''" "steady_clock ''2024-05-02 09:30:00''" "sample_env None False"
            "''/app''" "[''0'']" "sample_fs Garbage" "''0''" 0 102500
            "[JDict [(''task'', JStr ''Oil change''), (''last_miles'', JStr ''100,000''),
                     (''interval_miles'', JStr ''3000'')]]" 0
            "[(''task'', JStr ''Oil change''), (''last_miles'', JStr ''100,000''),
              (''interval_miles'', JStr ''3000'')]" "''''"]
          z
    by (simp add: sample_app_def get_or_def t stamp_task_def steady_clock_def sized_def is_dict_def)
qed

section \<open>Allocating a path for an attachment\<close>

lemma probe_free: "\<not> path_exists s (probe s dest name st ext cand i)"
proof (induction s dest name st ext cand i rule: probe.induct)
  case (1 s dest name st ext candidate i)
  then show ?case
    by (cases "path_exists s candidate") (simp_all add: probe.simps [of s dest name st ext candidate i])
qed

lemma probe_form:
  "(\<not> path_exists s cand \<and> probe s dest name st ext cand i = cand)
   \<or> (path_exists s cand \<and>
       (\<exists>k\<ge>i. probe s dest name st ext cand i = numbered dest name st ext k
          \<and> (\<forall>j. i \<le> j \<and> j < k \<longrightarrow> path_exists s (numbered dest name st ext j))))"
proof (induction s dest name st ext cand i rule: probe.induct)
  case (1 s dest name st ext candidate i)
  show ?case
  proof (cases "path_exists s candidate")
    case False
    then show ?thesis by (simp add: probe.simps [of s dest name st ext candidate i])
  next
    case True
    then have eq: "probe s dest name st ext candidate i
                   = probe s dest name st ext (numbered dest name st ext i) (Suc i)"
      by (simp add: probe.simps [of s dest name st ext candidate i])
    from 1 [OF True] consider
        (stop) "\<not> path_exists s (numbered dest name st ext i)"
               "probe s dest name st ext (numbered dest name st ext i) (Suc i)
                  = numbered dest name st ext i"
      | (go) k where "path_exists s (numbered dest name st ext i)" "Suc i \<le> k"
               "probe s dest name st ext (numbered dest name st ext i) (Suc i)
                  = numbered dest name st ext k"
               "\<forall>j. Suc i \<le> j \<and> j < k \<longrightarrow> path_exists s (numbered dest name st ext j)"
      by blast
    then show ?thesis
    proof cases
      case stop
      with True eq show ?thesis
        by (intro disjI2 conjI exI [of _ i]) auto
    next
      case go
      have "\<forall>j. i \<le> j \<and> j < k \<longrightarrow> path_exists s (numbered dest name st ext j)"
      proof (intro allI impI)
        fix j assume "i \<le> j \<and> j < k"
        then have "j = i \<or> (Suc i \<le> j \<and> j < k)" by auto
        with go(1,4) show "path_exists s (numbered dest name st ext j)" by auto
      qed
      with True eq go(2,3) show ?thesis
        by (intro disjI2 conjI exI [of _ k]) auto
    qed
  qed
qed

lemma fst_numbered [simp]: "fst (numbered dest name st ext k) = dest"
  by (simp add: numbered_def)

lemma stamp_of_example: "stamp_of ''2024-05-01 10:00:00'' = ''20240501_100000''"
  by (simp add: stamp_of_def remove_char_def replace_char_def)

text \<open>
  C9. \<^verbatim>\<open>unique_dest_path\<close> always returns (the loop ends on every file system), and the
  path it returns lies in the destination directory and names no existing file. It is
  \<^verbatim>\<open><name>_<stamp><ext>\<close> when that does not exist, and otherwise
  \<^verbatim>\<open><name>_<stamp>_<k><ext>\<close> for the least \<open>k\<close> from 1 on for which that does not
  exist. When the file is then copied to the path, a second allocation with the same
  stamp returns a different path, which existed neither before nor after the first copy;
  after the second copy the first copy is still what it was, and no file that existed at
  the start has been changed.
\<close>

theorem unique_dest_path_free:
  "\<not> path_exists s (unique_dest_path now s dest name ext)
   \<and> fst (unique_dest_path now s dest name ext) = dest
   \<and> (\<not> path_exists s (dest, name @ ''_'' @ stamp_of now @ ext) \<longrightarrow>
        unique_dest_path now s dest name ext = (dest, name @ ''_'' @ stamp_of now @ ext))
   \<and> (path_exists s (dest, name @ ''_'' @ stamp_of now @ ext) \<longrightarrow>
        (\<exists>k\<ge>1. unique_dest_path now s dest name ext
                  = (dest, name @ ''_'' @ stamp_of now @ ''_'' @ digits10 k @ ext)
            \<and> (\<forall>j. 1 \<le> j \<and> j < k \<longrightarrow>
                  path_exists s (dest, name @ ''_'' @ stamp_of now @ ''_'' @ digits10 j @ ext))))
   \<and> (copy2 src (unique_dest_path now s dest name ext) s = Some s1 \<longrightarrow>
        unique_dest_path now s1 dest name ext \<noteq> unique_dest_path now s dest name ext
        \<and> \<not> path_exists s (unique_dest_path now s1 dest name ext)
        \<and> \<not> path_exists s1 (unique_dest_path now s1 dest name ext)
        \<and> map_of (files s1) (unique_dest_path now s dest name ext) = map_of (files s) src
        \<and> (\<forall>q. path_exists s q \<longrightarrow> map_of (files s1) q = map_of (files s) q)
        \<and> (copy2 src' (unique_dest_path now s1 dest name ext) s1 = Some s2 \<longrightarrow>
             map_of (files s2) (unique_dest_path now s dest name ext) = map_of (files s) src
             \<and> map_of (files s2) (unique_dest_path now s1 dest name ext) = map_of (files s1) src'
             \<and> (\<forall>q. path_exists s q \<longrightarrow> map_of (files s2) q = map_of (files s) q)))"
proof -
  let ?p = "unique_dest_path now s dest name ext"
  let ?p2 = "unique_dest_path now s1 dest name ext"
  let ?c = "(dest, name @ ''_'' @ stamp_of now @ ext)"
  have free: "\<not> path_exists s' (unique_dest_path now s' dest name ext)" for s'
    by (simp add: unique_dest_path_def Let_def probe_free)
  have form: "(\<not> path_exists s ?c \<and> ?p = ?c)
     \<or> (path_exists s ?c \<and>
         (\<exists>k\<ge>1. ?p = numbered dest name (stamp_of now) ext k
            \<and> (\<forall>j. 1 \<le> j \<and> j < k \<longrightarrow> path_exists s (numbered dest name (stamp_of now) ext j))))"
    using probe_form [of s ?c dest name "stamp_of now" ext 1]
    by (simp add: unique_dest_path_def Let_def)
  have dir: "fst ?p = dest"
    using form by auto
  have two: "?p2 \<noteq> ?p \<and> \<not> path_exists s ?p2 \<and> \<not> path_exists s1 ?p2
        \<and> map_of (files s1) ?p = map_of (files s) src
        \<and> (\<forall>q. path_exists s q \<longrightarrow> map_of (files s1) q = map_of (files s) q)
        \<and> (copy2 src' ?p2 s1 = Some s2 \<longrightarrow>
             map_of (files s2) ?p = map_of (files s) src
             \<and> map_of (files s2) ?p2 = map_of (files s1) src'
             \<and> (\<forall>q. path_exists s q \<longrightarrow> map_of (files s2) q = map_of (files s) q))"
    if c1: "copy2 src ?p s = Some s1"
  proof -
    from c1 obtain c where c: "map_of (files s) src = Some c" "s1 = write_file ?p c s"
      by (auto simp: copy2_def split: option.splits)
    have l1: "map_of (files s1) q = (if q = ?p then Some c else map_of (files s) q)" for q
      by (simp add: c(2))
    have f2: "\<not> path_exists s1 ?p2" by (rule free)
    then have ne: "?p2 \<noteq> ?p" and f2s: "\<not> path_exists s ?p2"
      using l1 [of ?p2] by (auto simp: path_exists_def split: if_splits)
    have keep1: "\<forall>q. path_exists s q \<longrightarrow> map_of (files s1) q = map_of (files s) q"
      using free [of s] by (auto simp: l1 path_exists_def)
    have second: "map_of (files s2) ?p = map_of (files s) src
             \<and> map_of (files s2) ?p2 = map_of (files s1) src'
             \<and> (\<forall>q. path_exists s q \<longrightarrow> map_of (files s2) q = map_of (files s) q)"
      if c2: "copy2 src' ?p2 s1 = Some s2"
    proof -
      from c2 obtain c' where c': "map_of (files s1) src' = Some c'" "s2 = write_file ?p2 c' s1"
        by (auto simp: copy2_def split: option.splits)
      have l2: "map_of (files s2) q = (if q = ?p2 then Some c' else map_of (files s1) q)" for q
        by (simp add: c'(2))
      show ?thesis
        using ne f2s keep1 c(1) c'(1) l1 [of ?p]
        by (auto simp: l2 path_exists_def)
    qed
    show ?thesis
      using ne f2s f2 keep1 second c(1) l1 [of ?p] by simp
  qed
  show ?thesis
    using free [of s] dir form two
    by (simp add: numbered_def) blast
qed


theorem unique_dest_path_free_witness:
  "unique_dest_path ''2024-05-01 10:00:00'' sample_assets ''/app/maxine_assets'' ''receipt'' ''.pdf''
     = (''/app/maxine_assets'', ''receipt_20240501_100000_1.pdf'')
   \<and> \<not> path_exists sample_assets
         (unique_dest_path ''2024-05-01 10:00:00'' sample_assets ''/app/maxine_assets''
            ''receipt'' ''.pdf'')"
proof -
  have v: "unique_dest_path ''2024-05-01 10:00:00'' sample_assets ''/app/maxine_assets''
             ''receipt'' ''.pdf''
           = (''/app/maxine_assets'', ''receipt_20240501_100000_1.pdf'')"
    by (simp add: unique_dest_path_def Let_def stamp_of_example probe.simps path_exists_def
          sample_assets_def numbered_def digits10.simps digit_char_def)
  show ?thesis
    using unique_dest_path_free [of sample_assets "''2024-05-01 10:00:00''"
        "''/app/maxine_assets''" "''receipt''" "''.pdf''", THEN conjunct1] v
    by simp
qed

end
